theory Spec2Isabelle
  imports Main
begin

section \<open>The external-schema resource of the Redshift provider\<close>

text \<open>
  A shallow embedding of \<^verbatim>\<open>redshift/resource_redshift_external_schema_data_catalog.go\<close>.
  Every Go function of the file is one definition of the same name. The warehouse
  (\<^verbatim>\<open>database/sql\<close>) is a parameter: a record of operations over an abstract state.
  Each call on it is appended to a trace, so that the order of statements can be stated.
  Calls to \<^verbatim>\<open>log.Printf\<close> have no effect on results and are left out.
\<close>

subsection \<open>Errors, panics, outcomes\<close>

text \<open>
  \<^verbatim>\<open>errwrap.Wrapf(format, err)\<close> builds an error with an outer description and the
  inner cause; \<open>Wrapped format err\<close> keeps both (the format with its \<^verbatim>\<open>{{err}}\<close>
  place holder as written). A Go panic is an outcome of its own.
\<close>

datatype error =
    ErrNoRows
  | DriverError string
  | Wrapped string error

datatype panic =
    IndexOutOfRange
  | PanicError error

datatype outcome =
    Done
  | Failed error
  | Panicked panic

subsection \<open>The resource data\<close>

text \<open>
  \<^verbatim>\<open>schema.ResourceData\<close>: the identifier, and per attribute the value \<^verbatim>\<open>Get\<close> returns.
  For the two attributes on which the code calls \<^verbatim>\<open>HasChange\<close>/\<^verbatim>\<open>GetChange\<close> the prior
  state value is kept too. An optional attribute that is not set is \<open>None\<close>.
\<close>

record resource_data =
  rid :: string
  old_schema_name :: string
  schema_name :: string
  database_name :: string
  iam_role :: string
  old_owner :: "int option"
  owner :: "int option"
  cascade_on_delete :: "bool option"

definition int_value :: "int option \<Rightarrow> int" where
  \<comment> \<open>\<^verbatim>\<open>Get\<close> of a \<^verbatim>\<open>TypeInt\<close>: the zero value when unset\<close>
  "int_value v = (case v of None \<Rightarrow> 0 | Some n \<Rightarrow> n)"

definition get_owner :: "resource_data \<Rightarrow> int" where
  "get_owner d = int_value (owner d)"

definition getok_owner :: "resource_data \<Rightarrow> int \<times> bool" where
  \<comment> \<open>\<^verbatim>\<open>GetOk\<close>: ok when the attribute is set to a value other than the zero value\<close>
  "getok_owner d = (get_owner d, owner d \<noteq> None \<and> get_owner d \<noteq> 0)"

definition getok_cascade_on_delete :: "resource_data \<Rightarrow> bool \<times> bool" where
  "getok_cascade_on_delete d =
     (case cascade_on_delete d of
        None \<Rightarrow> (False, False)
      | Some b \<Rightarrow> (b, b \<noteq> False))"

definition has_change_schema_name :: "resource_data \<Rightarrow> bool" where
  "has_change_schema_name d = (old_schema_name d \<noteq> schema_name d)"

definition has_change_owner :: "resource_data \<Rightarrow> bool" where
  "has_change_owner d = (int_value (old_owner d) \<noteq> int_value (owner d))"

definition set_read_values ::
  "string \<Rightarrow> int \<Rightarrow> string \<Rightarrow> string \<Rightarrow> resource_data \<Rightarrow> resource_data" where
  \<comment> \<open>the four \<^verbatim>\<open>d.Set\<close> calls of \<^verbatim>\<open>readDataCatalogSchema\<close>\<close>
  "set_read_values n ow dbn role d =
     d\<lparr>schema_name := n, owner := Some ow, database_name := dbn, iam_role := role\<rparr>"

subsection \<open>The warehouse as a parameter\<close>

text \<open>
  A statement runs on the pooled client (\<^verbatim>\<open>*sql.DB\<close>) or on the transaction
  (\<^verbatim>\<open>*sql.Tx\<close>). \<^verbatim>\<open>QueryRow(...).Scan(...)\<close> yields an error or the scanned row; the
  two row shapes of the file are a single string and the four columns of the join.
  Queries read the state and leave it as it is.
\<close>

datatype handle = Pool | Tx

datatype event =
    EvBegin
  | EvExec handle string
  | EvQueryRow string string
  | EvUsernames handle "int list"
  | EvSleep nat
  | EvCommit
  | EvRollback

record 's driver =
  drv_exec :: "handle \<Rightarrow> string \<Rightarrow> 's \<Rightarrow> error option \<times> 's"
  drv_query_string :: "string \<Rightarrow> string \<Rightarrow> 's \<Rightarrow> error + string"
  drv_query_schema :: "string \<Rightarrow> string \<Rightarrow> 's \<Rightarrow> error + (string \<times> int \<times> string \<times> string)"
  drv_usernames :: "handle \<Rightarrow> int list \<Rightarrow> 's \<Rightarrow> string list"
  drv_begin :: "'s \<Rightarrow> error option \<times> 's"
  drv_commit :: "'s \<Rightarrow> 's"
  drv_rollback :: "'s \<Rightarrow> 's"
  drv_sleep :: "nat \<Rightarrow> 's \<Rightarrow> 's"

record 's world =
  db :: 's
  trace :: "event list"

definition Exec :: "'s driver \<Rightarrow> handle \<Rightarrow> string \<Rightarrow> 's world \<Rightarrow> error option \<times> 's world" where
  "Exec drv h stmt w =
     (case drv_exec drv h stmt (db w) of
        (r, s) \<Rightarrow> (r, \<lparr>db = s, trace = trace w @ [EvExec h stmt]\<rparr>))"

definition QueryRowString ::
  "'s driver \<Rightarrow> string \<Rightarrow> string \<Rightarrow> 's world \<Rightarrow> (error + string) \<times> 's world" where
  "QueryRowString drv q a w =
     (drv_query_string drv q a (db w), w\<lparr>trace := trace w @ [EvQueryRow q a]\<rparr>)"

definition QueryRowSchema ::
  "'s driver \<Rightarrow> string \<Rightarrow> string \<Rightarrow> 's world
     \<Rightarrow> (error + (string \<times> int \<times> string \<times> string)) \<times> 's world" where
  "QueryRowSchema drv q a w =
     (drv_query_schema drv q a (db w), w\<lparr>trace := trace w @ [EvQueryRow q a]\<rparr>)"

text \<open>
  Modelled from the spec: \<^verbatim>\<open>GetUsersnamesForUsesysid\<close>, the batch name lookup of the
  package, is defined outside this file. The specification describes it as a service from
  one or more ids to the list of names; the list it returns is the driver's answer.
\<close>

definition GetUsersnamesForUsesysid ::
  "'s driver \<Rightarrow> handle \<Rightarrow> int list \<Rightarrow> 's world \<Rightarrow> string list \<times> 's world" where
  "GetUsersnamesForUsesysid drv h ids w =
     (drv_usernames drv h ids (db w), w\<lparr>trace := trace w @ [EvUsernames h ids]\<rparr>)"

definition Begin :: "'s driver \<Rightarrow> 's world \<Rightarrow> error option \<times> 's world" where
  "Begin drv w =
     (case drv_begin drv (db w) of
        (r, s) \<Rightarrow> (r, \<lparr>db = s, trace = trace w @ [EvBegin]\<rparr>))"

definition Commit :: "'s driver \<Rightarrow> 's world \<Rightarrow> 's world" where
  "Commit drv w = \<lparr>db = drv_commit drv (db w), trace = trace w @ [EvCommit]\<rparr>"

definition Rollback :: "'s driver \<Rightarrow> 's world \<Rightarrow> 's world" where
  "Rollback drv w = \<lparr>db = drv_rollback drv (db w), trace = trace w @ [EvRollback]\<rparr>"

definition Sleep :: "'s driver \<Rightarrow> nat \<Rightarrow> 's world \<Rightarrow> 's world" where
  "Sleep drv n w = \<lparr>db = drv_sleep drv n (db w), trace = trace w @ [EvSleep n]\<rparr>"

subsection \<open>Statements and messages\<close>

definition sprintf_d_string :: "string \<Rightarrow> string" where
  \<comment> \<open>\<^verbatim>\<open>fmt.Sprintf\<close> of the verb \<^verbatim>\<open>%d\<close> on a string argument\<close>
  "sprintf_d_string s = ''%!d(string='' @ s @ '')''"

definition existenceQuery :: string where
  "existenceQuery = ''SELECT nspname FROM pg_namespace WHERE oid = $1''"

definition oidQuery :: string where
  "oidQuery = ''SELECT oid FROM pg_namespace WHERE nspname = $1''"

definition readQuery :: string where
  "readQuery = ''SELECT nspname, nspowner, databasename, json_extract_path_text(esoptions, ''
     @ [CHR 0x27] @ ''IAM_ROLE'' @ [CHR 0x27]
     @ '') FROM pg_namespace JOIN svv_external_schemas ON pg_namespace.oid = esoid WHERE pg_namespace.oid = $1''"

definition createStatement :: "resource_data \<Rightarrow> string" where
  "createStatement d =
     ''CREATE EXTERNAL SCHEMA '' @ schema_name d @ '' FROM DATA CATALOG DATABASE '' @ [CHR 0x27]
       @ database_name d @ [CHR 0x27] @ '' IAM_ROLE '' @ [CHR 0x27] @ iam_role d @ [CHR 0x27]"

definition alterSchemaNameQuery :: "string \<Rightarrow> string \<Rightarrow> string" where
  "alterSchemaNameQuery oldName newName = ''ALTER SCHEMA '' @ oldName @ '' RENAME TO '' @ newName"

definition alterSchemaOwnerQuery :: "string \<Rightarrow> string \<Rightarrow> string" where
  "alterSchemaOwnerQuery name username = ''ALTER SCHEMA '' @ name @ '' OWNER TO '' @ username"

definition dropSchemaQuery :: "resource_data \<Rightarrow> string" where
  "dropSchemaQuery d =
     (case getok_cascade_on_delete d of
        (v, ok) \<Rightarrow>
          if ok \<and> v then ''DROP SCHEMA '' @ schema_name d @ '' CASCADE ''
          else ''DROP SCHEMA '' @ schema_name d)"

definition exists_error_format :: "string \<Rightarrow> string" where
  "exists_error_format i =
     ''Error reading external schema with oid '' @ sprintf_d_string i @ '': {{err}}''"

definition read_error_format :: "string \<Rightarrow> string" where
  "read_error_format i =
     ''Error reading external schema information for oid '' @ sprintf_d_string i @ '': {{err}}''"

definition create_error_format :: "string \<Rightarrow> string" where
  "create_error_format n = ''Error creating external schema '' @ n @ '': {{err}}''"

definition oid_error_format :: "string \<Rightarrow> string" where
  "oid_error_format n = ''Error reading oid for created external schema '' @ n @ '': {{err}}''"

definition owner_error_format :: "string \<Rightarrow> string \<Rightarrow> string" where
  "owner_error_format n u =
     ''Error updating external schema '' @ n @ '' owner to '' @ u @ '': {{err}}''"

definition rename_error_format :: "string \<Rightarrow> string \<Rightarrow> string" where
  "rename_error_format oldName newName =
     ''Error renaming external schema '' @ oldName @ '' to '' @ newName @ '': {{err}}''"

definition rollback_error_format :: string where
  "rollback_error_format = ''Error performing rollback: {{err}}''"

definition drop_error_format :: "string \<Rightarrow> string" where
  "drop_error_format n = ''Error dropping external schema '' @ n @ '': {{err}}''"

subsection \<open>The functions of the file\<close>

definition resourceDataCatalogSchemaExists ::
  "'s driver \<Rightarrow> resource_data \<Rightarrow> 's world \<Rightarrow> (bool \<times> error option) \<times> 's world" where
  "resourceDataCatalogSchemaExists drv d w =
     (case QueryRowString drv existenceQuery (rid d) w of
        (Inl err, w1) \<Rightarrow>
          if err = ErrNoRows then ((False, None), w1)
          else ((False, Some (Wrapped (exists_error_format (rid d)) err)), w1)
      | (Inr name, w1) \<Rightarrow> ((True, None), w1))"

definition readDataCatalogSchema ::
  "'s driver \<Rightarrow> resource_data \<Rightarrow> 's world \<Rightarrow> outcome \<times> resource_data \<times> 's world" where
  "readDataCatalogSchema drv d w =
     (case QueryRowSchema drv readQuery (rid d) w of
        (Inl err, w1) \<Rightarrow> (Failed (Wrapped (read_error_format (rid d)) err), d, w1)
      | (Inr (schemaName, ow, databaseName, iamRole), w1) \<Rightarrow>
          (Done, set_read_values schemaName ow databaseName iamRole d, w1))"

definition resourceDataCatalogSchemaRead ::
  "'s driver \<Rightarrow> resource_data \<Rightarrow> 's world \<Rightarrow> outcome \<times> resource_data \<times> 's world" where
  "resourceDataCatalogSchemaRead drv d w = readDataCatalogSchema drv d w"

definition updateDataCatalogSchemaOwner ::
  "'s driver \<Rightarrow> resource_data \<Rightarrow> handle \<Rightarrow> 's world \<Rightarrow> outcome \<times> 's world" where
  \<comment> \<open>\<^verbatim>\<open>username[0]\<close> is evaluated to build the statement: on an empty list Go panics
      before \<^verbatim>\<open>Exec\<close> is called\<close>
  "updateDataCatalogSchemaOwner drv d q w =
     (case GetUsersnamesForUsesysid drv q [get_owner d] w of
        ([], w1) \<Rightarrow> (Panicked IndexOutOfRange, w1)
      | (u # us, w1) \<Rightarrow>
          (case Exec drv q (alterSchemaOwnerQuery (schema_name d) u) w1 of
             (Some err, w2) \<Rightarrow> (Failed (Wrapped (owner_error_format (schema_name d) u) err), w2)
           | (None, w2) \<Rightarrow> (Done, w2)))"

definition resourceDataCatalogSchemaCreate ::
  "'s driver \<Rightarrow> resource_data \<Rightarrow> 's world \<Rightarrow> outcome \<times> resource_data \<times> 's world" where
  "resourceDataCatalogSchemaCreate drv d w =
     (case Exec drv Pool (createStatement d) w of
        (Some err, w1) \<Rightarrow> (Failed (Wrapped (create_error_format (schema_name d)) err), d, w1)
      | (None, w1) \<Rightarrow>
          (case (if snd (getok_owner d)
                 then updateDataCatalogSchemaOwner drv d Pool (Sleep drv 5 w1)
                 else (Done, Sleep drv 5 w1)) of
             (Failed err, w2) \<Rightarrow> (Failed err, d, w2)
           | (Panicked p, w2) \<Rightarrow> (Panicked p, d, w2)
           | (Done, w2) \<Rightarrow>
               (case QueryRowString drv oidQuery (schema_name d) w2 of
                  (Inl err, w3) \<Rightarrow>
                    (Failed (Wrapped (oid_error_format (schema_name d)) err), d, w3)
                | (Inr oid, w3) \<Rightarrow> readDataCatalogSchema drv (d\<lparr>rid := oid\<rparr>) w3)))"

definition update_mutations ::
  "'s driver \<Rightarrow> resource_data \<Rightarrow> 's world \<Rightarrow> outcome \<times> 's world" where
  \<comment> \<open>the two guarded blocks of \<^verbatim>\<open>resourceDataCatalogSchemaUpdate\<close> that run on the
      transaction (lines 173 to 187), each with its early return\<close>
  "update_mutations drv d w0 =
     (case (if has_change_schema_name d
            then (case Exec drv Tx (alterSchemaNameQuery (old_schema_name d) (schema_name d)) w0 of
                    (Some err, w1) \<Rightarrow>
                      (Failed (Wrapped (rename_error_format (old_schema_name d) (schema_name d)) err), w1)
                  | (None, w1) \<Rightarrow> (Done, w1))
            else (Done, w0)) of
        (Failed err, w1) \<Rightarrow> (Failed err, w1)
      | (Panicked p, w1) \<Rightarrow> (Panicked p, w1)
      | (Done, w1) \<Rightarrow>
          if has_change_owner d then updateDataCatalogSchemaOwner drv d Tx w1 else (Done, w1))"

definition resourceDataCatalogSchemaUpdate ::
  "'s driver \<Rightarrow> resource_data \<Rightarrow> 's world \<Rightarrow> outcome \<times> resource_data \<times> 's world" where
  "resourceDataCatalogSchemaUpdate drv d w =
     (case Begin drv w of
        (Some txErr, w0) \<Rightarrow> (Panicked (PanicError txErr), d, w0)
      | (None, w0) \<Rightarrow>
          (case update_mutations drv d w0 of
             (Failed err, w2) \<Rightarrow> (Failed err, d, w2)
           | (Panicked p, w2) \<Rightarrow> (Panicked p, d, w2)
           | (Done, w2) \<Rightarrow>
               (case readDataCatalogSchema drv d w2 of
                  (Failed err, d3, w3) \<Rightarrow>
                    (Failed (Wrapped rollback_error_format err), d3, Rollback drv w3)
                | (Panicked p, d3, w3) \<Rightarrow> (Panicked p, d3, w3)
                | (Done, d3, w3) \<Rightarrow> (Done, d3, Commit drv w3))))"

definition resourceDataCatalogSchemaDelete ::
  "'s driver \<Rightarrow> resource_data \<Rightarrow> 's world \<Rightarrow> outcome \<times> resource_data \<times> 's world" where
  "resourceDataCatalogSchemaDelete drv d w =
     (case Exec drv Pool (dropSchemaQuery d) w of
        (Some err, w1) \<Rightarrow> (Failed (Wrapped (drop_error_format (schema_name d)) err), d, w1)
      | (None, w1) \<Rightarrow> (Done, d, w1))"

definition resourceDataCatalogSchemaImport ::
  "'s driver \<Rightarrow> resource_data \<Rightarrow> 's world
     \<Rightarrow> (outcome \<times> resource_data list) \<times> resource_data \<times> 's world" where
  \<comment> \<open>the slice returned on success holds the pointer \<^verbatim>\<open>d\<close> itself; \<^verbatim>\<open>nil\<close> is the
      empty list\<close>
  "resourceDataCatalogSchemaImport drv d w =
     (case resourceDataCatalogSchemaRead drv d w of
        (Failed err, d1, w1) \<Rightarrow> ((Failed err, []), d1, w1)
      | (Panicked p, d1, w1) \<Rightarrow> ((Panicked p, []), d1, w1)
      | (Done, d1, w1) \<Rightarrow> ((Done, [d1]), d1, w1))"

subsection \<open>A small warehouse to run the functions on\<close>

text \<open>
  An executable instance of the driver: a catalog of external schemas (oid, name, owner,
  database, role), a table of users, and at most one open transaction. A statement on the
  transaction changes the transaction's private copy of the catalog, which a commit
  publishes and a rollback drops; the pooled client reads and writes the published
  catalog. It understands the statements of this file, word by word.
\<close>

type_synonym schema_row = "string \<times> string \<times> int \<times> string \<times> string"

record catalog =
  schemas :: "schema_row list"
  oids :: "string list"

record wh =
  committed :: catalog
  txview :: "catalog option"
  users :: "(int \<times> string) list"
  session_user :: int

primrec split_words :: "string \<Rightarrow> string \<Rightarrow> string list" where
  "split_words cur [] = (if cur = [] then [] else [cur])"
| "split_words cur (c # cs) =
     (if c = CHR '' '' then (if cur = [] then split_words [] cs else cur # split_words [] cs)
      else split_words (cur @ [c]) cs)"

definition unquote :: "string \<Rightarrow> string" where
  "unquote s = filter (\<lambda>c. c \<noteq> CHR 0x27) s"

definition row_name :: "schema_row \<Rightarrow> string" where
  "row_name r = fst (snd r)"

definition has_schema :: "string \<Rightarrow> catalog \<Rightarrow> bool" where
  "has_schema n c = (n \<in> set (map row_name (schemas c)))"

definition rename_row :: "string \<Rightarrow> string \<Rightarrow> schema_row \<Rightarrow> schema_row" where
  "rename_row a b r = (case r of (i, n, rest) \<Rightarrow> if n = a then (i, b, rest) else r)"

definition reown_row :: "string \<Rightarrow> int \<Rightarrow> schema_row \<Rightarrow> schema_row" where
  "reown_row a u r = (case r of (i, n, ow, rest) \<Rightarrow> if n = a then (i, n, u, rest) else r)"

definition user_ids :: "string \<Rightarrow> (int \<times> string) list \<Rightarrow> int list" where
  "user_ids u us = map fst (filter (\<lambda>p. snd p = u) us)"

definition user_names :: "int list \<Rightarrow> (int \<times> string) list \<Rightarrow> string list" where
  "user_names ids us = concat (map (\<lambda>i. map snd (filter (\<lambda>p. fst p = i) us)) ids)"

definition apply_words ::
  "int \<Rightarrow> (int \<times> string) list \<Rightarrow> string list \<Rightarrow> catalog \<Rightarrow> error + catalog" where
  "apply_words su us ws c =
     (if length ws = 11 \<and> take 3 ws = [''CREATE'', ''EXTERNAL'', ''SCHEMA'']
         \<and> take 4 (drop 4 ws) = [''FROM'', ''DATA'', ''CATALOG'', ''DATABASE'']
         \<and> ws ! 9 = ''IAM_ROLE''
      then (if has_schema (ws ! 3) c then Inl (DriverError ''schema already exists'')
            else (case oids c of
                    [] \<Rightarrow> Inl (DriverError ''out of oids'')
                  | i # rest \<Rightarrow>
                      Inr \<lparr>schemas = schemas c @ [(i, ws ! 3, su, unquote (ws ! 8), unquote (ws ! 10))],
                           oids = rest\<rparr>))
      else if length ws = 6 \<and> take 2 ws = [''ALTER'', ''SCHEMA'']
         \<and> take 2 (drop 3 ws) = [''RENAME'', ''TO'']
      then (if \<not> has_schema (ws ! 2) c then Inl (DriverError ''schema does not exist'')
            else if has_schema (ws ! 5) c then Inl (DriverError ''schema already exists'')
            else Inr (c\<lparr>schemas := map (rename_row (ws ! 2) (ws ! 5)) (schemas c)\<rparr>))
      else if length ws = 6 \<and> take 2 ws = [''ALTER'', ''SCHEMA'']
         \<and> take 2 (drop 3 ws) = [''OWNER'', ''TO'']
      then (if \<not> has_schema (ws ! 2) c then Inl (DriverError ''schema does not exist'')
            else (case user_ids (ws ! 5) us of
                    [] \<Rightarrow> Inl (DriverError ''user does not exist'')
                  | u # rest \<Rightarrow> Inr (c\<lparr>schemas := map (reown_row (ws ! 2) u) (schemas c)\<rparr>)))
      else if (length ws = 3 \<or> length ws = 4 \<and> ws ! 3 = ''CASCADE'')
         \<and> take 2 ws = [''DROP'', ''SCHEMA'']
      then (if \<not> has_schema (ws ! 2) c then Inl (DriverError ''schema does not exist'')
            else Inr (c\<lparr>schemas := filter (\<lambda>r. row_name r \<noteq> ws ! 2) (schemas c)\<rparr>))
      else Inl (DriverError ''syntax error''))"

definition wh_exec :: "handle \<Rightarrow> string \<Rightarrow> wh \<Rightarrow> error option \<times> wh" where
  "wh_exec h stmt s =
     (case h of
        Pool \<Rightarrow>
          (case apply_words (session_user s) (users s) (split_words [] stmt) (committed s) of
             Inl e \<Rightarrow> (Some e, s)
           | Inr c \<Rightarrow> (None, s\<lparr>committed := c\<rparr>))
      | Tx \<Rightarrow>
          (case txview s of
             None \<Rightarrow> (Some (DriverError ''no transaction''), s)
           | Some v \<Rightarrow>
               (case apply_words (session_user s) (users s) (split_words [] stmt) v of
                  Inl e \<Rightarrow> (Some e, s)
                | Inr c \<Rightarrow> (None, s\<lparr>txview := Some c\<rparr>))))"

definition wh_query_string :: "string \<Rightarrow> string \<Rightarrow> wh \<Rightarrow> error + string" where
  "wh_query_string q a s =
     (if q = existenceQuery
      then (case filter (\<lambda>r. fst r = a) (schemas (committed s)) of
              [] \<Rightarrow> Inl ErrNoRows
            | r # rest \<Rightarrow> Inr (row_name r))
      else if q = oidQuery
      then (case filter (\<lambda>r. row_name r = a) (schemas (committed s)) of
              [] \<Rightarrow> Inl ErrNoRows
            | r # rest \<Rightarrow> Inr (fst r))
      else Inl (DriverError ''syntax error''))"

definition wh_query_schema ::
  "string \<Rightarrow> string \<Rightarrow> wh \<Rightarrow> error + (string \<times> int \<times> string \<times> string)" where
  "wh_query_schema q a s =
     (if q = readQuery
      then (case filter (\<lambda>r. fst r = a) (schemas (committed s)) of
              [] \<Rightarrow> Inl ErrNoRows
            | r # rest \<Rightarrow> Inr (snd r))
      else Inl (DriverError ''syntax error''))"

definition wh_usernames :: "handle \<Rightarrow> int list \<Rightarrow> wh \<Rightarrow> string list" where
  "wh_usernames h ids s = user_names ids (users s)"

definition wh_begin :: "wh \<Rightarrow> error option \<times> wh" where
  "wh_begin s =
     (case txview s of
        None \<Rightarrow> (None, s\<lparr>txview := Some (committed s)\<rparr>)
      | Some v \<Rightarrow> (Some (DriverError ''connection busy''), s))"

definition wh_commit :: "wh \<Rightarrow> wh" where
  "wh_commit s = (case txview s of None \<Rightarrow> s | Some v \<Rightarrow> s\<lparr>committed := v, txview := None\<rparr>)"

definition wh_rollback :: "wh \<Rightarrow> wh" where
  "wh_rollback s = s\<lparr>txview := None\<rparr>"

definition wh_sleep :: "nat \<Rightarrow> wh \<Rightarrow> wh" where
  "wh_sleep n s = s"

definition warehouse :: "wh driver" where
  "warehouse =
     \<lparr>drv_exec = wh_exec, drv_query_string = wh_query_string,
      drv_query_schema = wh_query_schema, drv_usernames = wh_usernames,
      drv_begin = wh_begin, drv_commit = wh_commit, drv_rollback = wh_rollback,
      drv_sleep = wh_sleep\<rparr>"

text \<open>
  A second instance with no state, whose every answer is fixed: for the runs in which
  the warehouse refuses a statement or shows no row.
\<close>

definition refuse_alter :: "string \<Rightarrow> error option" where
  "refuse_alter stmt =
     (if take 5 stmt = ''ALTER'' then Some (DriverError ''permission denied'') else None)"

definition accept_all :: "string \<Rightarrow> error option" where
  "accept_all stmt = None"

definition refuse_all :: "string \<Rightarrow> error option" where
  "refuse_all stmt = Some (DriverError ''connection refused'')"

definition scripted ::
  "(string \<Rightarrow> error option) \<Rightarrow> (error + string) \<Rightarrow> (error + (string \<times> int \<times> string \<times> string))
     \<Rightarrow> string list \<Rightarrow> unit driver" where
  "scripted ex qs qr names =
     \<lparr>drv_exec = (\<lambda>h stmt s. (ex stmt, s)), drv_query_string = (\<lambda>q a s. qs),
      drv_query_schema = (\<lambda>q a s. qr), drv_usernames = (\<lambda>h ids s. names),
      drv_begin = (\<lambda>s. (None, s)), drv_commit = (\<lambda>s. s), drv_rollback = (\<lambda>s. s),
      drv_sleep = (\<lambda>n s. s)\<rparr>"

definition start :: "'s \<Rightarrow> 's world" where
  "start s = \<lparr>db = s, trace = []\<rparr>"

definition wh0 :: wh where
  \<comment> \<open>one external schema \<open>ext1\<close> with oid 16385, owned by user 100\<close>
  "wh0 =
     \<lparr>committed = \<lparr>schemas = [(''16385'', ''ext1'', 100, ''gluedb'', ''arn:aws:iam::123:role/r'')],
                   oids = [''16386'', ''16387'']\<rparr>,
      txview = None,
      users = [(100, ''admin''), (200, ''alice'')],
      session_user = 100\<rparr>"

definition wh_empty :: wh where
  "wh_empty =
     \<lparr>committed = \<lparr>schemas = [], oids = [''16385'', ''16386'']\<rparr>,
      txview = None,
      users = [(100, ''admin''), (200, ''alice'')],
      session_user = 100\<rparr>"

definition d_ext1 :: resource_data where
  \<comment> \<open>the resource data of \<open>ext1\<close> with no pending change\<close>
  "d_ext1 =
     \<lparr>rid = ''16385'', old_schema_name = ''ext1'', schema_name = ''ext1'',
      database_name = ''gluedb'', iam_role = ''arn:aws:iam::123:role/r'',
      old_owner = Some 100, owner = Some 100, cascade_on_delete = None\<rparr>"

definition d_new :: resource_data where
  \<comment> \<open>the configuration of the spec's scenario, before Create: no identifier, no owner\<close>
  "d_new =
     \<lparr>rid = [], old_schema_name = [], schema_name = ''ext1'',
      database_name = ''gluedb'', iam_role = ''arn:aws:iam::123:role/r'',
      old_owner = None, owner = None, cascade_on_delete = None\<rparr>"

subsection \<open>Notions used by the statements\<close>

definition issued :: "'s world \<Rightarrow> 's world \<Rightarrow> event list" where
  \<comment> \<open>the events a call appended to the trace\<close>
  "issued w w' = drop (length (trace w)) (trace w')"

primrec execs :: "event list \<Rightarrow> string list" where
  "execs [] = []"
| "execs (e # es) = (case e of EvExec h stmt \<Rightarrow> stmt # execs es | _ \<Rightarrow> execs es)"

definition same_view :: "'s driver \<Rightarrow> 's \<Rightarrow> 's \<Rightarrow> bool" where
  \<comment> \<open>the pooled client gets the same answer to every query in both states\<close>
  "same_view drv s s' \<longleftrightarrow>
     (\<forall>q a. drv_query_string drv q a s' = drv_query_string drv q a s
          \<and> drv_query_schema drv q a s' = drv_query_schema drv q a s)"

definition tx_isolated :: "'s driver \<Rightarrow> bool" where
  \<comment> \<open>what a transaction does before its commit is invisible to the pooled client,
      and a rollback publishes nothing\<close>
  "tx_isolated drv \<longleftrightarrow>
     (\<forall>s. same_view drv s (snd (drv_begin drv s))
        \<and> (\<forall>stmt. same_view drv s (snd (drv_exec drv Tx stmt s)))
        \<and> same_view drv s (drv_rollback drv s))"

definition wh_two :: wh where
  \<comment> \<open>two external schemas, \<open>ext1\<close> and \<open>ext2\<close>\<close>
  "wh_two =
     \<lparr>committed = \<lparr>schemas = [(''16385'', ''ext1'', 100, ''gluedb'', ''arn:aws:iam::123:role/r''),
                              (''16386'', ''ext2'', 100, ''gluedb'', ''arn:aws:iam::123:role/r'')],
                   oids = [''16387'']\<rparr>,
      txview = None,
      users = [(100, ''admin''), (200, ''alice'')],
      session_user = 100\<rparr>"

section \<open>Properties\<close>

subsection \<open>Reading the catalog\<close>

lemma read_fail:
  "drv_query_schema drv readQuery (rid d) (db w) = Inl err \<Longrightarrow>
   readDataCatalogSchema drv d w =
     (Failed (Wrapped (read_error_format (rid d)) err), d,
      w\<lparr>trace := trace w @ [EvQueryRow readQuery (rid d)]\<rparr>)"
  by (simp add: readDataCatalogSchema_def QueryRowSchema_def)

lemma read_ok:
  "drv_query_schema drv readQuery (rid d) (db w) = Inr (n, ow, dbn, role) \<Longrightarrow>
   readDataCatalogSchema drv d w =
     (Done, set_read_values n ow dbn role d,
      w\<lparr>trace := trace w @ [EvQueryRow readQuery (rid d)]\<rparr>)"
  by (simp add: readDataCatalogSchema_def QueryRowSchema_def)

lemma read_cases:
  obtains (fail) err where "drv_query_schema drv readQuery (rid d) (db w) = Inl err"
  | (ok) n ow dbn role where "drv_query_schema drv readQuery (rid d) (db w) = Inr (n, ow, dbn, role)"
  by (cases "drv_query_schema drv readQuery (rid d) (db w)") auto

lemma read_rid: "rid (fst (snd (readDataCatalogSchema drv d w))) = rid d"
  by (cases rule: read_cases [of drv d w]) (simp_all add: read_fail read_ok set_read_values_def)

lemma read_db: "db (snd (snd (readDataCatalogSchema drv d w))) = db w"
  by (cases rule: read_cases [of drv d w]) (simp_all add: read_fail read_ok)

lemma read_never_panics: "fst (readDataCatalogSchema drv d w) \<noteq> Panicked p"
  by (cases rule: read_cases [of drv d w]) (simp_all add: read_fail read_ok)

lemma read_fixpoint:
  assumes "readDataCatalogSchema drv d w = (Done, d', w')"
  shows "readDataCatalogSchema drv d' w' =
           (Done, d', w'\<lparr>trace := trace w' @ [EvQueryRow readQuery (rid d')]\<rparr>)"
proof (cases rule: read_cases [of drv d w])
  case (fail err)
  with assms show ?thesis by (simp add: read_fail)
next
  case (ok n ow dbn role)
  with assms have d': "d' = set_read_values n ow dbn role d"
    and w': "w' = w\<lparr>trace := trace w @ [EvQueryRow readQuery (rid d)]\<rparr>"
    by (simp_all add: read_ok)
  have "drv_query_schema drv readQuery (rid d') (db w') = Inr (n, ow, dbn, role)"
    using ok by (simp add: d' w' set_read_values_def)
  then have "readDataCatalogSchema drv d' w' =
      (Done, set_read_values n ow dbn role d', w'\<lparr>trace := trace w' @ [EvQueryRow readQuery (rid d')]\<rparr>)"
    by (rule read_ok)
  moreover have "set_read_values n ow dbn role d' = d'"
    by (simp add: d' set_read_values_def)
  ultimately show ?thesis by simp
qed

text \<open>
  Claim C5, as amended. Read is the catalog read itself. When the join query fails, with
  no row or with any other error, the catalog read returns that error wrapped under one and
  the same description, which names the identifier; the cause is kept as the inner error
  only, and the resource data is left as it was.
\<close>

theorem read_wraps_every_failure:
  "resourceDataCatalogSchemaRead drv d w = readDataCatalogSchema drv d w
   \<and> (\<forall>err. drv_query_schema drv readQuery (rid d) (db w) = Inl err \<longrightarrow>
         readDataCatalogSchema drv d w =
           (Failed (Wrapped (read_error_format (rid d)) err), d,
            w\<lparr>trace := trace w @ [EvQueryRow readQuery (rid d)]\<rparr>))"
  by (simp add: resourceDataCatalogSchemaRead_def read_fail)

text \<open>
  The run of it on the small warehouse with an identifier that matches no row, and on a
  warehouse that refuses the connection.
\<close>

theorem read_wraps_every_failure_witness:
  "resourceDataCatalogSchemaRead warehouse (d_ext1\<lparr>rid := ''999''\<rparr>) (start wh0) =
     (Failed (Wrapped ''Error reading external schema information for oid %!d(string=999): {{err}}''
        ErrNoRows),
      d_ext1\<lparr>rid := ''999''\<rparr>,
      \<lparr>db = wh0, trace = [EvQueryRow readQuery ''999'']\<rparr>)
   \<and> resourceDataCatalogSchemaRead
       (scripted refuse_all (Inl (DriverError ''connection refused''))
          (Inl (DriverError ''connection refused'')) [])
       (d_ext1\<lparr>rid := ''999''\<rparr>) (start ()) =
     (Failed (Wrapped ''Error reading external schema information for oid %!d(string=999): {{err}}''
        (DriverError ''connection refused'')),
      d_ext1\<lparr>rid := ''999''\<rparr>,
      \<lparr>db = (), trace = [EvQueryRow readQuery ''999'']\<rparr>)"
proof -
  let ?d = "d_ext1\<lparr>rid := ''999''\<rparr>"
  let ?down = "scripted refuse_all (Inl (DriverError ''connection refused''))
          (Inl (DriverError ''connection refused'')) []"
  have h1: "drv_query_schema warehouse readQuery (rid ?d) (db (start wh0)) = Inl ErrNoRows"
    by code_simp
  have h2: "drv_query_schema ?down readQuery (rid ?d) (db (start ()))
      = Inl (DriverError ''connection refused'')"
    by code_simp
  have f: "read_error_format (rid ?d)
      = ''Error reading external schema information for oid %!d(string=999): {{err}}''"
    by code_simp
  have w1: "(start wh0)\<lparr>trace := trace (start wh0) @ [EvQueryRow readQuery (rid ?d)]\<rparr>
      = \<lparr>db = wh0, trace = [EvQueryRow readQuery ''999'']\<rparr>"
    by (simp add: start_def)
  have w2: "(start ())\<lparr>trace := trace (start ()) @ [EvQueryRow readQuery (rid ?d)]\<rparr>
      = \<lparr>db = (), trace = [EvQueryRow readQuery ''999'']\<rparr>"
    by (simp add: start_def)
  from read_wraps_every_failure [of warehouse ?d "start wh0"] h1
  have "resourceDataCatalogSchemaRead warehouse ?d (start wh0) =
      (Failed (Wrapped (read_error_format (rid ?d)) ErrNoRows), ?d,
       (start wh0)\<lparr>trace := trace (start wh0) @ [EvQueryRow readQuery (rid ?d)]\<rparr>)"
    by simp
  moreover from read_wraps_every_failure [of ?down ?d "start ()"] h2
  have "resourceDataCatalogSchemaRead ?down ?d (start ()) =
      (Failed (Wrapped (read_error_format (rid ?d)) (DriverError ''connection refused'')), ?d,
       (start ())\<lparr>trace := trace (start ()) @ [EvQueryRow readQuery (rid ?d)]\<rparr>)"
    by simp
  ultimately show ?thesis by (simp only: f w1 w2)
qed

text \<open>
  Claim C5 as stated is false: with no matching row Read does not return the no-rows
  error unchanged. It returns it wrapped, under the description that a refused connection
  gets as well.
\<close>

theorem read_not_found_counterexample:
  "fst (resourceDataCatalogSchemaRead warehouse (d_ext1\<lparr>rid := ''999''\<rparr>) (start wh0))
     \<noteq> Failed ErrNoRows
   \<and> fst (resourceDataCatalogSchemaRead warehouse (d_ext1\<lparr>rid := ''999''\<rparr>) (start wh0))
     = Failed (Wrapped ''Error reading external schema information for oid %!d(string=999): {{err}}''
        ErrNoRows)
   \<and> fst (resourceDataCatalogSchemaRead
       (scripted refuse_all (Inl (DriverError ''connection refused''))
          (Inl (DriverError ''connection refused'')) [])
       (d_ext1\<lparr>rid := ''999''\<rparr>) (start ()))
     = Failed (Wrapped ''Error reading external schema information for oid %!d(string=999): {{err}}''
        (DriverError ''connection refused''))"
  by code_simp

subsection \<open>Exists\<close>

text \<open>
  Claim C6. Exists returns false and no error when the existence query matches no row,
  true and no error when a row matches, and false with a wrapped error for every other
  failure of the query; it returns an error in that last case only, and it leaves the
  warehouse as it was.
\<close>

theorem exists_cases:
  "(drv_query_string drv existenceQuery (rid d) (db w) = Inl ErrNoRows
      \<longrightarrow> fst (resourceDataCatalogSchemaExists drv d w) = (False, None))
   \<and> (\<forall>name. drv_query_string drv existenceQuery (rid d) (db w) = Inr name
      \<longrightarrow> fst (resourceDataCatalogSchemaExists drv d w) = (True, None))
   \<and> (\<forall>err. drv_query_string drv existenceQuery (rid d) (db w) = Inl err \<and> err \<noteq> ErrNoRows
      \<longrightarrow> fst (resourceDataCatalogSchemaExists drv d w)
            = (False, Some (Wrapped (exists_error_format (rid d)) err)))
   \<and> (snd (fst (resourceDataCatalogSchemaExists drv d w)) \<noteq> None
      \<longleftrightarrow> (\<exists>err. drv_query_string drv existenceQuery (rid d) (db w) = Inl err \<and> err \<noteq> ErrNoRows))
   \<and> db (snd (resourceDataCatalogSchemaExists drv d w)) = db w"
  by (auto simp add: resourceDataCatalogSchemaExists_def QueryRowString_def split: sum.splits)

theorem exists_cases_witness:
  "drv_query_string warehouse existenceQuery (rid (d_ext1\<lparr>rid := ''999''\<rparr>)) (db (start wh0))
     = Inl ErrNoRows
   \<and> fst (resourceDataCatalogSchemaExists warehouse (d_ext1\<lparr>rid := ''999''\<rparr>) (start wh0))
     = (False, None)
   \<and> drv_query_string warehouse existenceQuery (rid d_ext1) (db (start wh0)) = Inr ''ext1''
   \<and> fst (resourceDataCatalogSchemaExists warehouse d_ext1 (start wh0)) = (True, None)
   \<and> drv_query_string (scripted refuse_all (Inl (DriverError ''connection refused''))
          (Inl (DriverError ''connection refused'')) []) existenceQuery (rid d_ext1) (db (start ()))
     = Inl (DriverError ''connection refused'')
   \<and> fst (resourceDataCatalogSchemaExists
        (scripted refuse_all (Inl (DriverError ''connection refused''))
          (Inl (DriverError ''connection refused'')) []) d_ext1 (start ()))
     = (False, Some (Wrapped (exists_error_format (rid d_ext1)) (DriverError ''connection refused'')))"
proof -
  let ?down = "scripted refuse_all (Inl (DriverError ''connection refused''))
          (Inl (DriverError ''connection refused'')) []"
  have h1: "drv_query_string warehouse existenceQuery (rid (d_ext1\<lparr>rid := ''999''\<rparr>)) (db (start wh0))
     = Inl ErrNoRows"
    by code_simp
  have h2: "drv_query_string warehouse existenceQuery (rid d_ext1) (db (start wh0)) = Inr ''ext1''"
    by code_simp
  have h3: "drv_query_string ?down existenceQuery (rid d_ext1) (db (start ()))
     = Inl (DriverError ''connection refused'')"
    by code_simp
  from exists_cases [of warehouse "d_ext1\<lparr>rid := ''999''\<rparr>" "start wh0"] h1
  have c1: "fst (resourceDataCatalogSchemaExists warehouse (d_ext1\<lparr>rid := ''999''\<rparr>) (start wh0))
     = (False, None)"
    by blast
  from exists_cases [of warehouse d_ext1 "start wh0"] h2
  have c2: "fst (resourceDataCatalogSchemaExists warehouse d_ext1 (start wh0)) = (True, None)"
    by blast
  from exists_cases [of ?down d_ext1 "start ()"] h3
  have c3: "fst (resourceDataCatalogSchemaExists ?down d_ext1 (start ()))
     = (False, Some (Wrapped (exists_error_format (rid d_ext1)) (DriverError ''connection refused'')))"
    by force
  from h1 h2 h3 c1 c2 c3 show ?thesis by (intro conjI)
qed

subsection \<open>Delete\<close>

text \<open>
  Claim C7, as amended. Delete issues exactly one statement, on the pooled client. When
  cascade_on_delete is false or not set it is DROP SCHEMA followed by the schema name; when
  it is true, the clause CASCADE is appended with a space before it and a space after it,
  so the statement ends with that space.
\<close>

theorem delete_statement:
  "issued w (snd (snd (resourceDataCatalogSchemaDelete drv d w)))
     = [EvExec Pool (''DROP SCHEMA '' @ schema_name d
          @ (if cascade_on_delete d = Some True then '' CASCADE '' else []))]"
  by (auto simp add: resourceDataCatalogSchemaDelete_def Exec_def issued_def dropSchemaQuery_def
      getok_cascade_on_delete_def split: prod.splits option.splits)

text \<open>
  Claim C7 as stated is false for the cascading drop: the statement issued ends with a
  space after CASCADE.
\<close>

theorem delete_cascade_counterexample:
  "issued (start wh0) (snd (snd (resourceDataCatalogSchemaDelete warehouse
      (d_ext1\<lparr>cascade_on_delete := Some True\<rparr>) (start wh0))))
     \<noteq> [EvExec Pool ''DROP SCHEMA ext1 CASCADE'']
   \<and> issued (start wh0) (snd (snd (resourceDataCatalogSchemaDelete warehouse
      (d_ext1\<lparr>cascade_on_delete := Some True\<rparr>) (start wh0))))
     = [EvExec Pool ''DROP SCHEMA ext1 CASCADE '']"
  by code_simp

subsection \<open>The owner update\<close>

lemma owner_update_empty:
  "drv_usernames drv q [get_owner d] (db w) = [] \<Longrightarrow>
   updateDataCatalogSchemaOwner drv d q w =
     (Panicked IndexOutOfRange, w\<lparr>trace := trace w @ [EvUsernames q [get_owner d]]\<rparr>)"
  by (simp add: updateDataCatalogSchemaOwner_def GetUsersnamesForUsesysid_def)

lemma owner_update_found:
  "drv_usernames drv q [get_owner d] (db w) = u # us \<Longrightarrow>
   updateDataCatalogSchemaOwner drv d q w =
     (case fst (drv_exec drv q (alterSchemaOwnerQuery (schema_name d) u) (db w)) of
        Some err \<Rightarrow> Failed (Wrapped (owner_error_format (schema_name d) u) err)
      | None \<Rightarrow> Done,
      \<lparr>db = snd (drv_exec drv q (alterSchemaOwnerQuery (schema_name d) u) (db w)),
       trace = trace w @ [EvUsernames q [get_owner d],
                          EvExec q (alterSchemaOwnerQuery (schema_name d) u)]\<rparr>)"
  by (simp add: updateDataCatalogSchemaOwner_def GetUsersnamesForUsesysid_def Exec_def
      split: prod.splits option.splits)

lemma owner_update_trace:
  "trace (snd (updateDataCatalogSchemaOwner drv d q w)) =
     trace w @ EvUsernames q [get_owner d] #
       (case drv_usernames drv q [get_owner d] (db w) of
          [] \<Rightarrow> []
        | u # us \<Rightarrow> [EvExec q (alterSchemaOwnerQuery (schema_name d) u)])"
  by (cases "drv_usernames drv q [get_owner d] (db w)")
     (simp_all add: owner_update_empty owner_update_found)

lemma same_view_refl: "same_view drv s s"
  by (simp add: same_view_def)

lemma same_view_trans: "same_view drv s t \<Longrightarrow> same_view drv t u \<Longrightarrow> same_view drv s u"
  by (simp add: same_view_def)

lemma owner_update_view:
  assumes "tx_isolated drv"
  shows "same_view drv (db w) (db (snd (updateDataCatalogSchemaOwner drv d Tx w)))"
proof (cases "drv_usernames drv Tx [get_owner d] (db w)")
  case Nil
  then show ?thesis by (simp add: owner_update_empty same_view_def)
next
  case (Cons u us)
  then show ?thesis using assms by (simp add: owner_update_found tx_isolated_def)
qed

text \<open>
  Claim C4 fails on the code. When the lookup finds no name for the owner (here user 300,
  whom the warehouse does not know), the owner update panics on the index into the empty
  list: no error is returned and no statement is issued.
\<close>

theorem owner_update_panics_on_empty_lookup:
  "updateDataCatalogSchemaOwner warehouse (d_ext1\<lparr>owner := Some 300\<rparr>) Pool (start wh0) =
     (Panicked IndexOutOfRange, \<lparr>db = wh0, trace = [EvUsernames Pool [300]]\<rparr>)"
  by code_simp

subsection \<open>Update\<close>

lemma mutations_no_rename:
  "\<not> has_change_schema_name d \<Longrightarrow>
   update_mutations drv d w0 =
     (if has_change_owner d then updateDataCatalogSchemaOwner drv d Tx w0 else (Done, w0))"
  by (simp add: update_mutations_def)

lemma mutations_rename_fail:
  "has_change_schema_name d \<Longrightarrow>
   drv_exec drv Tx (alterSchemaNameQuery (old_schema_name d) (schema_name d)) (db w0) = (Some err, s1) \<Longrightarrow>
   update_mutations drv d w0 =
     (Failed (Wrapped (rename_error_format (old_schema_name d) (schema_name d)) err),
      \<lparr>db = s1, trace = trace w0 @ [EvExec Tx (alterSchemaNameQuery (old_schema_name d) (schema_name d))]\<rparr>)"
  by (simp add: update_mutations_def Exec_def)

lemma mutations_rename_ok:
  "has_change_schema_name d \<Longrightarrow>
   drv_exec drv Tx (alterSchemaNameQuery (old_schema_name d) (schema_name d)) (db w0) = (None, s1) \<Longrightarrow>
   update_mutations drv d w0 =
     (if has_change_owner d
      then updateDataCatalogSchemaOwner drv d Tx
             \<lparr>db = s1, trace = trace w0 @ [EvExec Tx (alterSchemaNameQuery (old_schema_name d) (schema_name d))]\<rparr>
      else (Done, \<lparr>db = s1, trace = trace w0 @ [EvExec Tx (alterSchemaNameQuery (old_schema_name d) (schema_name d))]\<rparr>))"
  by (simp add: update_mutations_def Exec_def)

lemma mutations_cases:
  obtains (unchanged) "\<not> has_change_schema_name d"
  | (refused) err s1 where "has_change_schema_name d"
      "drv_exec drv Tx (alterSchemaNameQuery (old_schema_name d) (schema_name d)) (db w0) = (Some err, s1)"
  | (renamed) s1 where "has_change_schema_name d"
      "drv_exec drv Tx (alterSchemaNameQuery (old_schema_name d) (schema_name d)) (db w0) = (None, s1)"
proof (cases "has_change_schema_name d")
  case False
  then show ?thesis by (rule unchanged)
next
  case True
  obtain r s1 where e: "drv_exec drv Tx (alterSchemaNameQuery (old_schema_name d) (schema_name d)) (db w0) = (r, s1)"
    by (cases "drv_exec drv Tx (alterSchemaNameQuery (old_schema_name d) (schema_name d)) (db w0)")
  show ?thesis
  proof (cases r)
    case None
    with True e show ?thesis by (auto intro: renamed)
  next
    case (Some err)
    with True e show ?thesis by (auto intro: refused)
  qed
qed

lemma mutations_trace:
  "trace (snd (update_mutations drv d w0)) =
     trace w0 @
     (if has_change_schema_name d
      then EvExec Tx (alterSchemaNameQuery (old_schema_name d) (schema_name d)) #
        (if fst (drv_exec drv Tx (alterSchemaNameQuery (old_schema_name d) (schema_name d)) (db w0)) = None
            \<and> has_change_owner d
         then EvUsernames Tx [get_owner d] #
           (case drv_usernames drv Tx [get_owner d]
                   (snd (drv_exec drv Tx (alterSchemaNameQuery (old_schema_name d) (schema_name d)) (db w0))) of
              [] \<Rightarrow> []
            | u # us \<Rightarrow> [EvExec Tx (alterSchemaOwnerQuery (schema_name d) u)])
         else [])
      else if has_change_owner d
      then EvUsernames Tx [get_owner d] #
           (case drv_usernames drv Tx [get_owner d] (db w0) of
              [] \<Rightarrow> []
            | u # us \<Rightarrow> [EvExec Tx (alterSchemaOwnerQuery (schema_name d) u)])
      else [])"
proof (cases rule: mutations_cases [where d = d and drv = drv and ?w0.0 = w0])
  case unchanged
  then show ?thesis by (simp add: mutations_no_rename owner_update_trace)
next
  case (refused err s1)
  then show ?thesis by (simp add: mutations_rename_fail)
next
  case (renamed s1)
  then show ?thesis by (simp add: mutations_rename_ok owner_update_trace)
qed

lemma mutations_view:
  assumes "tx_isolated drv"
  shows "same_view drv (db w0) (db (snd (update_mutations drv d w0)))"
proof (cases rule: mutations_cases [where d = d and drv = drv and ?w0.0 = w0])
  case unchanged
  then show ?thesis
    using owner_update_view [OF assms, of w0 d] by (simp add: mutations_no_rename same_view_refl)
next
  case (refused err s1)
  from assms have "same_view drv (db w0)
      (snd (drv_exec drv Tx (alterSchemaNameQuery (old_schema_name d) (schema_name d)) (db w0)))"
    by (simp add: tx_isolated_def)
  with refused show ?thesis by (simp add: mutations_rename_fail)
next
  case (renamed s1)
  let ?w1 = "\<lparr>db = s1, trace = trace w0 @ [EvExec Tx (alterSchemaNameQuery (old_schema_name d) (schema_name d))]\<rparr>"
  from assms have "same_view drv (db w0)
      (snd (drv_exec drv Tx (alterSchemaNameQuery (old_schema_name d) (schema_name d)) (db w0)))"
    by (simp add: tx_isolated_def)
  with renamed have v1: "same_view drv (db w0) (db ?w1)" by simp
  have v2: "same_view drv (db ?w1) (db (snd (updateDataCatalogSchemaOwner drv d Tx ?w1)))"
    using assms by (rule owner_update_view)
  show ?thesis
    using renamed v1 same_view_trans [OF v1 v2] by (simp add: mutations_rename_ok)
qed

lemma update_begin_fail:
  "drv_begin drv (db w) = (Some txErr, s0) \<Longrightarrow>
   resourceDataCatalogSchemaUpdate drv d w =
     (Panicked (PanicError txErr), d, \<lparr>db = s0, trace = trace w @ [EvBegin]\<rparr>)"
  by (simp add: resourceDataCatalogSchemaUpdate_def Begin_def)

lemma update_mutation_fail:
  "drv_begin drv (db w) = (None, s0) \<Longrightarrow>
   update_mutations drv d \<lparr>db = s0, trace = trace w @ [EvBegin]\<rparr> = (Failed err, w2) \<Longrightarrow>
   resourceDataCatalogSchemaUpdate drv d w = (Failed err, d, w2)"
  by (simp add: resourceDataCatalogSchemaUpdate_def Begin_def)

lemma update_mutation_panic:
  "drv_begin drv (db w) = (None, s0) \<Longrightarrow>
   update_mutations drv d \<lparr>db = s0, trace = trace w @ [EvBegin]\<rparr> = (Panicked p, w2) \<Longrightarrow>
   resourceDataCatalogSchemaUpdate drv d w = (Panicked p, d, w2)"
  by (simp add: resourceDataCatalogSchemaUpdate_def Begin_def)

lemma update_readback_fail:
  "drv_begin drv (db w) = (None, s0) \<Longrightarrow>
   update_mutations drv d \<lparr>db = s0, trace = trace w @ [EvBegin]\<rparr> = (Done, w2) \<Longrightarrow>
   drv_query_schema drv readQuery (rid d) (db w2) = Inl err \<Longrightarrow>
   resourceDataCatalogSchemaUpdate drv d w =
     (Failed (Wrapped rollback_error_format (Wrapped (read_error_format (rid d)) err)), d,
      \<lparr>db = drv_rollback drv (db w2),
       trace = trace w2 @ [EvQueryRow readQuery (rid d), EvRollback]\<rparr>)"
  by (simp add: resourceDataCatalogSchemaUpdate_def Begin_def read_fail Rollback_def)

lemma update_readback_ok:
  "drv_begin drv (db w) = (None, s0) \<Longrightarrow>
   update_mutations drv d \<lparr>db = s0, trace = trace w @ [EvBegin]\<rparr> = (Done, w2) \<Longrightarrow>
   drv_query_schema drv readQuery (rid d) (db w2) = Inr (n, ow, dbn, role) \<Longrightarrow>
   resourceDataCatalogSchemaUpdate drv d w =
     (Done, set_read_values n ow dbn role d,
      \<lparr>db = drv_commit drv (db w2),
       trace = trace w2 @ [EvQueryRow readQuery (rid d), EvCommit]\<rparr>)"
  by (simp add: resourceDataCatalogSchemaUpdate_def Begin_def read_ok Commit_def)

lemma update_cases:
  obtains (begin_fail) txErr s0 where "drv_begin drv (db w) = (Some txErr, s0)"
  | (mutation_fail) s0 err w2 where "drv_begin drv (db w) = (None, s0)"
      "update_mutations drv d \<lparr>db = s0, trace = trace w @ [EvBegin]\<rparr> = (Failed err, w2)"
  | (mutation_panic) s0 p w2 where "drv_begin drv (db w) = (None, s0)"
      "update_mutations drv d \<lparr>db = s0, trace = trace w @ [EvBegin]\<rparr> = (Panicked p, w2)"
  | (readback_fail) s0 w2 err where "drv_begin drv (db w) = (None, s0)"
      "update_mutations drv d \<lparr>db = s0, trace = trace w @ [EvBegin]\<rparr> = (Done, w2)"
      "drv_query_schema drv readQuery (rid d) (db w2) = Inl err"
  | (readback_ok) s0 w2 n ow dbn role where "drv_begin drv (db w) = (None, s0)"
      "update_mutations drv d \<lparr>db = s0, trace = trace w @ [EvBegin]\<rparr> = (Done, w2)"
      "drv_query_schema drv readQuery (rid d) (db w2) = Inr (n, ow, dbn, role)"
proof -
  obtain r s0 where b: "drv_begin drv (db w) = (r, s0)"
    by (cases "drv_begin drv (db w)")
  obtain m w2 where u: "update_mutations drv d \<lparr>db = s0, trace = trace w @ [EvBegin]\<rparr> = (m, w2)"
    by (cases "update_mutations drv d \<lparr>db = s0, trace = trace w @ [EvBegin]\<rparr>")
  show ?thesis
  proof (cases r)
    case (Some txErr)
    with b show ?thesis by (auto intro: begin_fail)
  next
    case None
    show ?thesis
    proof (cases m)
      case (Failed err)
      with None b u show ?thesis by (auto intro: mutation_fail)
    next
      case (Panicked p)
      with None b u show ?thesis by (auto intro: mutation_panic)
    next
      case Done
      show ?thesis
      proof (cases "drv_query_schema drv readQuery (rid d) (db w2)")
        case (Inl err)
        with Done None b u show ?thesis by (auto intro: readback_fail)
      next
        case (Inr row)
        obtain n ow dbn role where "row = (n, ow, dbn, role)" by (cases row) auto
        with Inr Done None b u show ?thesis by (auto intro: readback_ok)
      qed
    qed
  qed
qed

lemma update_rid: "rid (fst (snd (resourceDataCatalogSchemaUpdate drv d w))) = rid d"
  by (cases rule: update_cases [where drv = drv and d = d and w = w])
     (simp_all add: update_begin_fail update_mutation_fail update_mutation_panic
        update_readback_fail update_readback_ok set_read_values_def)

lemma issued_append: "trace w' = trace w @ es \<Longrightarrow> issued w w' = es"
  by (simp add: issued_def)

lemma execs_append: "execs (xs @ ys) = execs xs @ execs ys"
  by (induction xs) (simp_all split: event.splits)

lemma update_trace:
  assumes "drv_begin drv (db w) = (None, s0)"
  shows "\<exists>tail. trace (snd (snd (resourceDataCatalogSchemaUpdate drv d w))) =
           trace (snd (update_mutations drv d \<lparr>db = s0, trace = trace w @ [EvBegin]\<rparr>)) @ tail
         \<and> execs tail = []"
  using assms
  by (cases rule: update_cases [where drv = drv and d = d and w = w])
     (simp_all add: update_mutation_fail update_mutation_panic
        update_readback_fail update_readback_ok)

text \<open>
  Claim C3. In an Update that changes both the schema name and the owner, and whose
  transaction begins, the statements issued start with the rename from the old to the new
  name. Nothing follows it when the rename is refused or the owner has no name; otherwise
  exactly one statement follows, the owner change, and it names the new schema name.
\<close>

theorem update_rename_before_reown:
  assumes "has_change_schema_name d" and "has_change_owner d"
    and "drv_begin drv (db w) = (None, s0)"
  shows "execs (issued w (snd (snd (resourceDataCatalogSchemaUpdate drv d w)))) =
           alterSchemaNameQuery (old_schema_name d) (schema_name d) #
           (case drv_exec drv Tx (alterSchemaNameQuery (old_schema_name d) (schema_name d)) s0 of
              (Some err, s1) \<Rightarrow> []
            | (None, s1) \<Rightarrow>
                (case drv_usernames drv Tx [get_owner d] s1 of
                   [] \<Rightarrow> []
                 | u # us \<Rightarrow> [alterSchemaOwnerQuery (schema_name d) u]))"
proof -
  let ?w0 = "\<lparr>db = s0, trace = trace w @ [EvBegin]\<rparr>"
  let ?stmt = "alterSchemaNameQuery (old_schema_name d) (schema_name d)"
  let ?rest = "(if fst (drv_exec drv Tx ?stmt s0) = None
         then EvUsernames Tx [get_owner d] #
           (case drv_usernames drv Tx [get_owner d] (snd (drv_exec drv Tx ?stmt s0)) of
              [] \<Rightarrow> []
            | u # us \<Rightarrow> [EvExec Tx (alterSchemaOwnerQuery (schema_name d) u)])
         else [])"
  from update_trace [OF assms(3), of d]
  obtain tail where t: "trace (snd (snd (resourceDataCatalogSchemaUpdate drv d w))) =
      trace (snd (update_mutations drv d ?w0)) @ tail" and e: "execs tail = []"
    by blast
  have m: "trace (snd (update_mutations drv d ?w0)) = trace w @ EvBegin # EvExec Tx ?stmt # ?rest"
    using assms(1,2) by (simp add: mutations_trace)
  have "issued w (snd (snd (resourceDataCatalogSchemaUpdate drv d w))) =
      EvBegin # EvExec Tx ?stmt # ?rest @ tail"
    by (rule issued_append) (simp add: t m)
  then show ?thesis
    using e by (simp add: execs_append split: prod.splits option.splits list.splits)
qed

theorem update_rename_before_reown_witness:
  "has_change_schema_name (d_ext1\<lparr>schema_name := ''ext2'', owner := Some 200\<rparr>)
   \<and> has_change_owner (d_ext1\<lparr>schema_name := ''ext2'', owner := Some 200\<rparr>)
   \<and> execs (issued (start wh0) (snd (snd (resourceDataCatalogSchemaUpdate warehouse
        (d_ext1\<lparr>schema_name := ''ext2'', owner := Some 200\<rparr>) (start wh0)))))
      = [''ALTER SCHEMA ext1 RENAME TO ext2'', ''ALTER SCHEMA ext2 OWNER TO alice'']"
proof -
  let ?d = "d_ext1\<lparr>schema_name := ''ext2'', owner := Some 200\<rparr>"
  let ?s0 = "wh0\<lparr>txview := Some (committed wh0)\<rparr>"
  have h1: "has_change_schema_name ?d" by code_simp
  have h2: "has_change_owner ?d" by code_simp
  have h3: "drv_begin warehouse (db (start wh0)) = (None, ?s0)" by code_simp
  have e: "alterSchemaNameQuery (old_schema_name ?d) (schema_name ?d) #
           (case drv_exec warehouse Tx (alterSchemaNameQuery (old_schema_name ?d) (schema_name ?d)) ?s0 of
              (Some err, s1) \<Rightarrow> []
            | (None, s1) \<Rightarrow>
                (case drv_usernames warehouse Tx [get_owner ?d] s1 of
                   [] \<Rightarrow> []
                 | u # us \<Rightarrow> [alterSchemaOwnerQuery (schema_name ?d) u]))
      = [''ALTER SCHEMA ext1 RENAME TO ext2'', ''ALTER SCHEMA ext2 OWNER TO alice'']"
    by code_simp
  from update_rename_before_reown [OF h1 h2 h3]
  have "execs (issued (start wh0) (snd (snd (resourceDataCatalogSchemaUpdate warehouse ?d (start wh0)))))
      = [''ALTER SCHEMA ext1 RENAME TO ext2'', ''ALTER SCHEMA ext2 OWNER TO alice'']"
    by (simp only: e)
  with h1 h2 show ?thesis by (intro conjI)
qed

text \<open>
  Claim C2. When the read-back of an Update fails, the call rolls the transaction back
  and returns the read error wrapped once more; the resource data is unchanged and no
  commit was issued. Where the warehouse keeps what a transaction does invisible to the
  pooled client until its commit, the pooled client afterwards gets the answers it got
  before the call: the name and the owner of before, not the attempted ones.
\<close>

theorem update_rollback_on_readback_failure:
  assumes "drv_begin drv (db w) = (None, s0)"
    and "update_mutations drv d \<lparr>db = s0, trace = trace w @ [EvBegin]\<rparr> = (Done, w2)"
    and "drv_query_schema drv readQuery (rid d) (db w2) = Inl err"
  shows "resourceDataCatalogSchemaUpdate drv d w =
           (Failed (Wrapped rollback_error_format (Wrapped (read_error_format (rid d)) err)), d,
            \<lparr>db = drv_rollback drv (db w2),
             trace = trace w2 @ [EvQueryRow readQuery (rid d), EvRollback]\<rparr>)
         \<and> EvCommit \<notin> set (issued w (snd (snd (resourceDataCatalogSchemaUpdate drv d w))))
         \<and> (tx_isolated drv \<longrightarrow>
              same_view drv (db w) (db (snd (snd (resourceDataCatalogSchemaUpdate drv d w)))))"
proof -
  let ?w0 = "\<lparr>db = s0, trace = trace w @ [EvBegin]\<rparr>"
  note r = update_readback_fail [OF assms]
  have "\<exists>es. trace (snd (update_mutations drv d ?w0)) = trace ?w0 @ es \<and> EvCommit \<notin> set es"
    by (simp add: mutations_trace split: list.splits)
  then obtain es where es: "trace w2 = trace w @ EvBegin # es" and nc: "EvCommit \<notin> set es"
    using assms(2) by auto
  have "issued w (snd (snd (resourceDataCatalogSchemaUpdate drv d w))) =
      EvBegin # es @ [EvQueryRow readQuery (rid d), EvRollback]"
    by (rule issued_append) (simp add: r es)
  with nc have c2: "EvCommit \<notin> set (issued w (snd (snd (resourceDataCatalogSchemaUpdate drv d w))))"
    by simp
  have c3: "same_view drv (db w) (db (snd (snd (resourceDataCatalogSchemaUpdate drv d w))))"
    if iso: "tx_isolated drv"
  proof -
    from iso have "same_view drv (db w) (snd (drv_begin drv (db w)))"
      by (simp add: tx_isolated_def)
    then have v0: "same_view drv (db w) (db ?w0)" using assms(1) by simp
    have "same_view drv (db ?w0) (db (snd (update_mutations drv d ?w0)))"
      using iso by (rule mutations_view)
    then have v1: "same_view drv (db ?w0) (db w2)" using assms(2) by simp
    from iso have v2: "same_view drv (db w2) (drv_rollback drv (db w2))"
      by (simp add: tx_isolated_def)
    from same_view_trans [OF same_view_trans [OF v0 v1] v2] show ?thesis
      by (simp add: r)
  qed
  from r c2 c3 show ?thesis by blast
qed

lemma warehouse_isolated: "tx_isolated warehouse"
  by (simp add: tx_isolated_def same_view_def warehouse_def wh_begin_def wh_exec_def wh_rollback_def
      wh_query_string_def wh_query_schema_def split: option.splits sum.splits)

text \<open>
  The run of it on the small warehouse: a rename from ext1 to ext2 with an identifier
  that matches no row. After the call the schema is still read as ext1.
\<close>

theorem update_rollback_on_readback_failure_witness:
  "resourceDataCatalogSchemaUpdate warehouse
       (d_ext1\<lparr>rid := ''999'', schema_name := ''ext2''\<rparr>) (start wh0) =
     (Failed (Wrapped rollback_error_format (Wrapped (read_error_format ''999'') ErrNoRows)),
      d_ext1\<lparr>rid := ''999'', schema_name := ''ext2''\<rparr>,
      \<lparr>db = wh0,
       trace = [EvBegin, EvExec Tx ''ALTER SCHEMA ext1 RENAME TO ext2'',
                EvQueryRow readQuery ''999'', EvRollback]\<rparr>)
   \<and> EvCommit \<notin> set (issued (start wh0) (snd (snd (resourceDataCatalogSchemaUpdate warehouse
         (d_ext1\<lparr>rid := ''999'', schema_name := ''ext2''\<rparr>) (start wh0)))))
   \<and> same_view warehouse (db (start wh0)) (db (snd (snd (resourceDataCatalogSchemaUpdate warehouse
         (d_ext1\<lparr>rid := ''999'', schema_name := ''ext2''\<rparr>) (start wh0)))))
   \<and> drv_query_schema warehouse readQuery ''16385''
        (db (snd (snd (resourceDataCatalogSchemaUpdate warehouse
         (d_ext1\<lparr>rid := ''999'', schema_name := ''ext2''\<rparr>) (start wh0)))))
      = Inr (''ext1'', 100, ''gluedb'', ''arn:aws:iam::123:role/r'')"
proof -
  let ?d = "d_ext1\<lparr>rid := ''999'', schema_name := ''ext2''\<rparr>"
  let ?s0 = "wh0\<lparr>txview := Some (committed wh0)\<rparr>"
  let ?w2 = "\<lparr>db = wh0\<lparr>txview := Some \<lparr>schemas =
                 [(''16385'', ''ext2'', 100, ''gluedb'', ''arn:aws:iam::123:role/r'')],
                 oids = [''16386'', ''16387'']\<rparr>\<rparr>,
              trace = [EvBegin, EvExec Tx ''ALTER SCHEMA ext1 RENAME TO ext2'']\<rparr>"
  have h1: "drv_begin warehouse (db (start wh0)) = (None, ?s0)"
    by code_simp
  have h2: "update_mutations warehouse ?d \<lparr>db = ?s0, trace = trace (start wh0) @ [EvBegin]\<rparr>
      = (Done, ?w2)"
    by code_simp
  have h3: "drv_query_schema warehouse readQuery (rid ?d) (db ?w2) = Inl ErrNoRows"
    by code_simp
  have e1: "(Failed (Wrapped rollback_error_format (Wrapped (read_error_format (rid ?d)) ErrNoRows)), ?d,
            \<lparr>db = drv_rollback warehouse (db ?w2),
             trace = trace ?w2 @ [EvQueryRow readQuery (rid ?d), EvRollback]\<rparr>)
      = (Failed (Wrapped rollback_error_format (Wrapped (read_error_format ''999'') ErrNoRows)), ?d,
      \<lparr>db = wh0,
       trace = [EvBegin, EvExec Tx ''ALTER SCHEMA ext1 RENAME TO ext2'',
                EvQueryRow readQuery ''999'', EvRollback]\<rparr>)"
    by code_simp
  have e2: "drv_query_schema warehouse readQuery ''16385'' wh0
      = Inr (''ext1'', 100, ''gluedb'', ''arn:aws:iam::123:role/r'')"
    by code_simp
  note t = update_rollback_on_readback_failure [OF h1 h2 h3]
  from t have c1: "resourceDataCatalogSchemaUpdate warehouse ?d (start wh0) =
     (Failed (Wrapped rollback_error_format (Wrapped (read_error_format ''999'') ErrNoRows)), ?d,
      \<lparr>db = wh0,
       trace = [EvBegin, EvExec Tx ''ALTER SCHEMA ext1 RENAME TO ext2'',
                EvQueryRow readQuery ''999'', EvRollback]\<rparr>)"
    by (simp only: e1)
  from t have c2: "EvCommit \<notin> set (issued (start wh0)
      (snd (snd (resourceDataCatalogSchemaUpdate warehouse ?d (start wh0)))))"
    by blast
  from t warehouse_isolated
  have c3: "same_view warehouse (db (start wh0))
      (db (snd (snd (resourceDataCatalogSchemaUpdate warehouse ?d (start wh0)))))"
    by blast
  have c4: "drv_query_schema warehouse readQuery ''16385''
        (db (snd (snd (resourceDataCatalogSchemaUpdate warehouse ?d (start wh0)))))
      = Inr (''ext1'', 100, ''gluedb'', ''arn:aws:iam::123:role/r'')"
    by (simp add: c1 e2)
  from c1 c2 c3 c4 show ?thesis by (intro conjI)
qed

lemma update_early_return_keeps_transaction:
  assumes "drv_begin drv (db w) = (None, s0)"
    and "update_mutations drv d \<lparr>db = s0, trace = trace w @ [EvBegin]\<rparr> = (Failed err, w2)"
  shows "resourceDataCatalogSchemaUpdate drv d w = (Failed err, d, w2)"
    and "EvCommit \<notin> set (issued w w2)" and "EvRollback \<notin> set (issued w w2)"
proof -
  let ?w0 = "\<lparr>db = s0, trace = trace w @ [EvBegin]\<rparr>"
  show "resourceDataCatalogSchemaUpdate drv d w = (Failed err, d, w2)"
    using assms by (rule update_mutation_fail)
  have "\<exists>es. trace (snd (update_mutations drv d ?w0)) = trace ?w0 @ es
      \<and> EvCommit \<notin> set es \<and> EvRollback \<notin> set es"
    by (simp add: mutations_trace split: list.splits)
  then obtain es where es: "trace w2 = trace w @ EvBegin # es"
    and nc: "EvCommit \<notin> set es" "EvRollback \<notin> set es"
    using assms(2) by auto
  have "issued w w2 = EvBegin # es"
    by (rule issued_append) (simp add: es)
  with nc show "EvCommit \<notin> set (issued w w2)" and "EvRollback \<notin> set (issued w w2)"
    by simp_all
qed

text \<open>
  Claim C9 fails on the code. When the rename is refused (here the new name is taken),
  Update returns the error straight away: the trace ends with the refused statement, with
  neither a commit nor a rollback, and the warehouse still holds the open transaction.
\<close>

theorem update_returns_with_open_transaction:
  "resourceDataCatalogSchemaUpdate warehouse (d_ext1\<lparr>schema_name := ''ext2''\<rparr>) (start wh_two) =
     (Failed (Wrapped ''Error renaming external schema ext1 to ext2: {{err}}''
                (DriverError ''schema already exists'')),
      d_ext1\<lparr>schema_name := ''ext2''\<rparr>,
      \<lparr>db = wh_two\<lparr>txview := Some (committed wh_two)\<rparr>,
       trace = [EvBegin, EvExec Tx ''ALTER SCHEMA ext1 RENAME TO ext2'']\<rparr>)"
  by code_simp

subsection \<open>Read after write\<close>

lemma create_done_is_read:
  assumes "resourceDataCatalogSchemaCreate drv d w = (Done, d', w')"
  shows "\<exists>oid w3. readDataCatalogSchema drv (d\<lparr>rid := oid\<rparr>) w3 = (Done, d', w')"
  using assms
  by (auto simp add: resourceDataCatalogSchemaCreate_def
      split: prod.splits option.splits outcome.splits sum.splits if_splits)

lemma update_done_is_read:
  assumes "resourceDataCatalogSchemaUpdate drv d w = (Done, d', w')"
  shows "\<exists>w2 w3. readDataCatalogSchema drv d w2 = (Done, d', w3) \<and> w' = Commit drv w3"
  using assms
  by (auto simp add: resourceDataCatalogSchemaUpdate_def
      split: prod.splits option.splits outcome.splits)

text \<open>
  After a successful Create the resource data is what a fresh catalog read of the
  assigned identifier returns: the read is the last thing Create does.
\<close>

lemma create_read_after_write:
  assumes "resourceDataCatalogSchemaCreate drv d w = (Done, d', w')"
  shows "readDataCatalogSchema drv d' w' =
           (Done, d', w'\<lparr>trace := trace w' @ [EvQueryRow readQuery (rid d')]\<rparr>)"
proof -
  from assms obtain oid w3 where "readDataCatalogSchema drv (d\<lparr>rid := oid\<rparr>) w3 = (Done, d', w')"
    using create_done_is_read by blast
  then show ?thesis by (rule read_fixpoint)
qed

text \<open>
  Update reads back on the pooled client and commits afterwards. Where the warehouse
  keeps what a transaction does invisible to the pooled client until its commit, a
  successful Update therefore returns what the catalog read returned before the call.
\<close>

lemma update_isolated_returns_pre_call_read:
  assumes iso: "tx_isolated drv"
    and fin: "resourceDataCatalogSchemaUpdate drv d w = (Done, d', w')"
  shows "\<exists>n ow dbn role.
           drv_query_schema drv readQuery (rid d) (db w) = Inr (n, ow, dbn, role)
           \<and> d' = set_read_values n ow dbn role d"
proof (cases rule: update_cases [where drv = drv and d = d and w = w])
  case (begin_fail txErr s0)
  with fin show ?thesis by (simp add: update_begin_fail)
next
  case (mutation_fail s0 err w2)
  with fin show ?thesis by (simp add: update_mutation_fail)
next
  case (mutation_panic s0 p w2)
  with fin show ?thesis by (simp add: update_mutation_panic)
next
  case (readback_fail s0 w2 err)
  with fin show ?thesis by (simp add: update_readback_fail)
next
  case (readback_ok s0 w2 n ow dbn role)
  let ?w0 = "\<lparr>db = s0, trace = trace w @ [EvBegin]\<rparr>"
  from iso have "same_view drv (db w) (snd (drv_begin drv (db w)))"
    by (simp add: tx_isolated_def)
  then have v0: "same_view drv (db w) (db ?w0)" using readback_ok(1) by simp
  have "same_view drv (db ?w0) (db (snd (update_mutations drv d ?w0)))"
    using iso by (rule mutations_view)
  then have v1: "same_view drv (db ?w0) (db w2)" using readback_ok(2) by simp
  from same_view_trans [OF v0 v1]
  have "drv_query_schema drv readQuery (rid d) (db w2) = drv_query_schema drv readQuery (rid d) (db w)"
    by (simp add: same_view_def)
  with readback_ok(3) have q: "drv_query_schema drv readQuery (rid d) (db w) = Inr (n, ow, dbn, role)"
    by simp
  from fin update_readback_ok [OF readback_ok] have "d' = set_read_values n ow dbn role d"
    by simp
  with q show ?thesis by blast
qed

text \<open>
  Claim C1 fails on the code for Update. On the small warehouse a rename from ext1 to
  ext2 succeeds and is committed, yet the resource data returned holds ext1, the name read
  before the commit, while the warehouse and a fresh read after the call give ext2.
\<close>

theorem update_stores_pre_commit_read:
  "fst (resourceDataCatalogSchemaUpdate warehouse (d_ext1\<lparr>schema_name := ''ext2''\<rparr>) (start wh0)) = Done
   \<and> schema_name (fst (snd (resourceDataCatalogSchemaUpdate warehouse
        (d_ext1\<lparr>schema_name := ''ext2''\<rparr>) (start wh0)))) = ''ext1''
   \<and> drv_query_schema warehouse readQuery ''16385''
        (db (snd (snd (resourceDataCatalogSchemaUpdate warehouse
           (d_ext1\<lparr>schema_name := ''ext2''\<rparr>) (start wh0)))))
      = Inr (''ext2'', 100, ''gluedb'', ''arn:aws:iam::123:role/r'')
   \<and> schema_name (fst (snd (readDataCatalogSchema warehouse
        (fst (snd (resourceDataCatalogSchemaUpdate warehouse
           (d_ext1\<lparr>schema_name := ''ext2''\<rparr>) (start wh0))))
        (snd (snd (resourceDataCatalogSchemaUpdate warehouse
           (d_ext1\<lparr>schema_name := ''ext2''\<rparr>) (start wh0))))))) = ''ext2''"
  by code_simp

subsection \<open>Create and the identifier\<close>

lemma create_stmt_fail:
  "drv_exec drv Pool (createStatement d) (db w) = (Some err, s1) \<Longrightarrow>
   resourceDataCatalogSchemaCreate drv d w =
     (Failed (Wrapped (create_error_format (schema_name d)) err), d,
      \<lparr>db = s1, trace = trace w @ [EvExec Pool (createStatement d)]\<rparr>)"
  by (simp add: resourceDataCatalogSchemaCreate_def Exec_def)

lemma create_owner_fail:
  "drv_exec drv Pool (createStatement d) (db w) = (None, s1) \<Longrightarrow>
   (if snd (getok_owner d)
    then updateDataCatalogSchemaOwner drv d Pool
           (Sleep drv 5 \<lparr>db = s1, trace = trace w @ [EvExec Pool (createStatement d)]\<rparr>)
    else (Done, Sleep drv 5 \<lparr>db = s1, trace = trace w @ [EvExec Pool (createStatement d)]\<rparr>))
     = (Failed err, w2) \<Longrightarrow>
   resourceDataCatalogSchemaCreate drv d w = (Failed err, d, w2)"
  by (simp add: resourceDataCatalogSchemaCreate_def Exec_def)

lemma create_owner_panic:
  "drv_exec drv Pool (createStatement d) (db w) = (None, s1) \<Longrightarrow>
   (if snd (getok_owner d)
    then updateDataCatalogSchemaOwner drv d Pool
           (Sleep drv 5 \<lparr>db = s1, trace = trace w @ [EvExec Pool (createStatement d)]\<rparr>)
    else (Done, Sleep drv 5 \<lparr>db = s1, trace = trace w @ [EvExec Pool (createStatement d)]\<rparr>))
     = (Panicked p, w2) \<Longrightarrow>
   resourceDataCatalogSchemaCreate drv d w = (Panicked p, d, w2)"
  by (simp add: resourceDataCatalogSchemaCreate_def Exec_def)

lemma create_oid_fail:
  "drv_exec drv Pool (createStatement d) (db w) = (None, s1) \<Longrightarrow>
   (if snd (getok_owner d)
    then updateDataCatalogSchemaOwner drv d Pool
           (Sleep drv 5 \<lparr>db = s1, trace = trace w @ [EvExec Pool (createStatement d)]\<rparr>)
    else (Done, Sleep drv 5 \<lparr>db = s1, trace = trace w @ [EvExec Pool (createStatement d)]\<rparr>))
     = (Done, w3) \<Longrightarrow>
   drv_query_string drv oidQuery (schema_name d) (db w3) = Inl err \<Longrightarrow>
   resourceDataCatalogSchemaCreate drv d w =
     (Failed (Wrapped (oid_error_format (schema_name d)) err), d,
      w3\<lparr>trace := trace w3 @ [EvQueryRow oidQuery (schema_name d)]\<rparr>)"
  by (simp add: resourceDataCatalogSchemaCreate_def Exec_def QueryRowString_def)

lemma create_oid_ok:
  "drv_exec drv Pool (createStatement d) (db w) = (None, s1) \<Longrightarrow>
   (if snd (getok_owner d)
    then updateDataCatalogSchemaOwner drv d Pool
           (Sleep drv 5 \<lparr>db = s1, trace = trace w @ [EvExec Pool (createStatement d)]\<rparr>)
    else (Done, Sleep drv 5 \<lparr>db = s1, trace = trace w @ [EvExec Pool (createStatement d)]\<rparr>))
     = (Done, w3) \<Longrightarrow>
   drv_query_string drv oidQuery (schema_name d) (db w3) = Inr oid \<Longrightarrow>
   resourceDataCatalogSchemaCreate drv d w =
     readDataCatalogSchema drv (d\<lparr>rid := oid\<rparr>)
       (w3\<lparr>trace := trace w3 @ [EvQueryRow oidQuery (schema_name d)]\<rparr>)"
  by (simp add: resourceDataCatalogSchemaCreate_def Exec_def QueryRowString_def)

lemma create_rid_final:
  "rid (fst (snd (resourceDataCatalogSchemaCreate drv d w))) = rid d
   \<or> drv_query_string drv oidQuery (schema_name d)
        (db (snd (snd (resourceDataCatalogSchemaCreate drv d w))))
      = Inr (rid (fst (snd (resourceDataCatalogSchemaCreate drv d w))))"
proof -
  obtain r s1 where e: "drv_exec drv Pool (createStatement d) (db w) = (r, s1)"
    by (cases "drv_exec drv Pool (createStatement d) (db w)")
  let ?w1 = "Sleep drv 5 \<lparr>db = s1, trace = trace w @ [EvExec Pool (createStatement d)]\<rparr>"
  obtain m w3 where o: "(if snd (getok_owner d)
      then updateDataCatalogSchemaOwner drv d Pool ?w1 else (Done, ?w1)) = (m, w3)"
    by (cases "if snd (getok_owner d)
      then updateDataCatalogSchemaOwner drv d Pool ?w1 else (Done, ?w1)")
  show ?thesis
  proof (cases r)
    case (Some err)
    with e show ?thesis by (simp add: create_stmt_fail)
  next
    case None
    note e' = e [unfolded None]
    show ?thesis
    proof (cases m)
      case (Failed err)
      from create_owner_fail [OF e' o [unfolded Failed]] show ?thesis by simp
    next
      case (Panicked p)
      from create_owner_panic [OF e' o [unfolded Panicked]] show ?thesis by simp
    next
      case Done
      note o' = o [unfolded Done]
      show ?thesis
      proof (cases "drv_query_string drv oidQuery (schema_name d) (db w3)")
        case (Inl err)
        from create_oid_fail [OF e' o' Inl] show ?thesis by simp
      next
        case (Inr oid)
        note c = create_oid_ok [OF e' o' Inr]
        have "rid (fst (snd (resourceDataCatalogSchemaCreate drv d w))) = oid"
          by (simp add: c read_rid)
        moreover have "db (snd (snd (resourceDataCatalogSchemaCreate drv d w))) = db w3"
          by (simp add: c read_db)
        ultimately show ?thesis using Inr by simp
      qed
    qed
  qed
qed

lemma owner_step_trace:
  "\<exists>es. trace (snd (if snd (getok_owner d) then updateDataCatalogSchemaOwner drv d Pool w1
                      else (Done, w1))) = trace w1 @ es"
  by (simp add: owner_update_trace)

lemma create_done_cases:
  assumes "fst (resourceDataCatalogSchemaCreate drv d w) = Done"
  obtains s1 w3 oid n ow dbn role where
    "drv_exec drv Pool (createStatement d) (db w) = (None, s1)"
    "(if snd (getok_owner d)
      then updateDataCatalogSchemaOwner drv d Pool
             (Sleep drv 5 \<lparr>db = s1, trace = trace w @ [EvExec Pool (createStatement d)]\<rparr>)
      else (Done, Sleep drv 5 \<lparr>db = s1, trace = trace w @ [EvExec Pool (createStatement d)]\<rparr>))
       = (Done, w3)"
    "drv_query_string drv oidQuery (schema_name d) (db w3) = Inr oid"
    "drv_query_schema drv readQuery oid (db w3) = Inr (n, ow, dbn, role)"
    "resourceDataCatalogSchemaCreate drv d w =
       (Done, set_read_values n ow dbn role (d\<lparr>rid := oid\<rparr>),
        w3\<lparr>trace := trace w3 @ [EvQueryRow oidQuery (schema_name d), EvQueryRow readQuery oid]\<rparr>)"
proof -
  obtain r s1 where e: "drv_exec drv Pool (createStatement d) (db w) = (r, s1)"
    by (cases "drv_exec drv Pool (createStatement d) (db w)")
  let ?w1 = "Sleep drv 5 \<lparr>db = s1, trace = trace w @ [EvExec Pool (createStatement d)]\<rparr>"
  obtain m w3 where o: "(if snd (getok_owner d)
      then updateDataCatalogSchemaOwner drv d Pool ?w1 else (Done, ?w1)) = (m, w3)"
    by (cases "if snd (getok_owner d)
      then updateDataCatalogSchemaOwner drv d Pool ?w1 else (Done, ?w1)")
  show ?thesis
  proof (cases r)
    case (Some err)
    with e assms show ?thesis by (simp add: create_stmt_fail)
  next
    case None
    note e' = e [unfolded None]
    show ?thesis
    proof (cases m)
      case (Failed err)
      from create_owner_fail [OF e' o [unfolded Failed]] assms show ?thesis by simp
    next
      case (Panicked p)
      from create_owner_panic [OF e' o [unfolded Panicked]] assms show ?thesis by simp
    next
      case Done
      note o' = o [unfolded Done]
      show ?thesis
      proof (cases "drv_query_string drv oidQuery (schema_name d) (db w3)")
        case (Inl err)
        from create_oid_fail [OF e' o' Inl] assms show ?thesis by simp
      next
        case (Inr oid)
        note c = create_oid_ok [OF e' o' Inr]
        let ?w4 = "w3\<lparr>trace := trace w3 @ [EvQueryRow oidQuery (schema_name d)]\<rparr>"
        show ?thesis
        proof (cases rule: read_cases [where drv = drv and d = "d\<lparr>rid := oid\<rparr>" and w = ?w4])
          case (fail err)
          from read_fail [OF fail] c assms show ?thesis by simp
        next
          case (ok n ow dbn role)
          from read_ok [OF ok] c
          have c': "resourceDataCatalogSchemaCreate drv d w =
            (Done, set_read_values n ow dbn role (d\<lparr>rid := oid\<rparr>),
             w3\<lparr>trace := trace w3 @ [EvQueryRow oidQuery (schema_name d), EvQueryRow readQuery oid]\<rparr>)"
            by simp
          from ok have q: "drv_query_schema drv readQuery oid (db w3) = Inr (n, ow, dbn, role)"
            by simp
          from e' o' Inr q c' show ?thesis by (rule that)
        qed
      qed
    qed
  qed
qed

lemma create_done_rid:
  assumes "fst (resourceDataCatalogSchemaCreate drv d w) = Done"
  shows "drv_query_string drv oidQuery (schema_name d)
           (db (snd (snd (resourceDataCatalogSchemaCreate drv d w))))
         = Inr (rid (fst (snd (resourceDataCatalogSchemaCreate drv d w))))"
    and "\<exists>es. issued w (snd (snd (resourceDataCatalogSchemaCreate drv d w))) =
           EvExec Pool (createStatement d) # EvSleep 5 # es @
             [EvQueryRow oidQuery (schema_name d),
              EvQueryRow readQuery (rid (fst (snd (resourceDataCatalogSchemaCreate drv d w))))]"
proof -
  from assms obtain s1 w3 oid n ow dbn role where
    e: "drv_exec drv Pool (createStatement d) (db w) = (None, s1)"
    and o: "(if snd (getok_owner d)
      then updateDataCatalogSchemaOwner drv d Pool
             (Sleep drv 5 \<lparr>db = s1, trace = trace w @ [EvExec Pool (createStatement d)]\<rparr>)
      else (Done, Sleep drv 5 \<lparr>db = s1, trace = trace w @ [EvExec Pool (createStatement d)]\<rparr>))
       = (Done, w3)"
    and l: "drv_query_string drv oidQuery (schema_name d) (db w3) = Inr oid"
    and c: "resourceDataCatalogSchemaCreate drv d w =
       (Done, set_read_values n ow dbn role (d\<lparr>rid := oid\<rparr>),
        w3\<lparr>trace := trace w3 @ [EvQueryRow oidQuery (schema_name d), EvQueryRow readQuery oid]\<rparr>)"
    by (rule create_done_cases)
  let ?w1 = "Sleep drv 5 \<lparr>db = s1, trace = trace w @ [EvExec Pool (createStatement d)]\<rparr>"
  have r: "rid (fst (snd (resourceDataCatalogSchemaCreate drv d w))) = oid"
    by (simp add: c set_read_values_def)
  show "drv_query_string drv oidQuery (schema_name d)
           (db (snd (snd (resourceDataCatalogSchemaCreate drv d w))))
         = Inr (rid (fst (snd (resourceDataCatalogSchemaCreate drv d w))))"
    using l by (simp add: c set_read_values_def)
  from owner_step_trace [of d drv ?w1] o obtain es where "trace w3 = trace ?w1 @ es"
    by auto
  then have "trace w3 = trace w @ EvExec Pool (createStatement d) # EvSleep 5 # es"
    by (simp add: Sleep_def)
  then have "issued w (snd (snd (resourceDataCatalogSchemaCreate drv d w))) =
      EvExec Pool (createStatement d) # EvSleep 5 # es @
        [EvQueryRow oidQuery (schema_name d), EvQueryRow readQuery oid]"
    by (intro issued_append) (simp add: c)
  with r show "\<exists>es. issued w (snd (snd (resourceDataCatalogSchemaCreate drv d w))) =
           EvExec Pool (createStatement d) # EvSleep 5 # es @
             [EvQueryRow oidQuery (schema_name d),
              EvQueryRow readQuery (rid (fst (snd (resourceDataCatalogSchemaCreate drv d w))))]"
    by auto
qed

text \<open>
  Claim C8. Read, Update, Delete and Import return the resource data with the identifier
  they were given (Exists returns no resource data at all), and the slice Import returns
  on success holds that one resource. Create alone sets the identifier. Its result carries
  either the identifier it was given or the oid that the lookup by name returns in the
  final state of the warehouse; a Create that succeeds carries that oid, looked up after
  the creation statement and the wait, and read back under it as the last step.
\<close>

theorem identifier_stable:
  "rid (fst (snd (resourceDataCatalogSchemaRead drv d w))) = rid d
   \<and> rid (fst (snd (resourceDataCatalogSchemaUpdate drv d w))) = rid d
   \<and> rid (fst (snd (resourceDataCatalogSchemaDelete drv d w))) = rid d
   \<and> rid (fst (snd (resourceDataCatalogSchemaImport drv d w))) = rid d
   \<and> map rid (snd (fst (resourceDataCatalogSchemaImport drv d w)))
       = (if fst (fst (resourceDataCatalogSchemaImport drv d w)) = Done then [rid d] else [])
   \<and> (rid (fst (snd (resourceDataCatalogSchemaCreate drv d w))) = rid d
      \<or> drv_query_string drv oidQuery (schema_name d)
           (db (snd (snd (resourceDataCatalogSchemaCreate drv d w))))
         = Inr (rid (fst (snd (resourceDataCatalogSchemaCreate drv d w)))))
   \<and> (fst (resourceDataCatalogSchemaCreate drv d w) = Done \<longrightarrow>
        drv_query_string drv oidQuery (schema_name d)
           (db (snd (snd (resourceDataCatalogSchemaCreate drv d w))))
         = Inr (rid (fst (snd (resourceDataCatalogSchemaCreate drv d w))))
        \<and> (\<exists>es. issued w (snd (snd (resourceDataCatalogSchemaCreate drv d w))) =
              EvExec Pool (createStatement d) # EvSleep 5 # es @
                [EvQueryRow oidQuery (schema_name d),
                 EvQueryRow readQuery (rid (fst (snd (resourceDataCatalogSchemaCreate drv d w))))]))"
proof -
  have r: "rid (fst (snd (resourceDataCatalogSchemaRead drv d w))) = rid d"
    by (simp add: resourceDataCatalogSchemaRead_def read_rid)
  have dl: "rid (fst (snd (resourceDataCatalogSchemaDelete drv d w))) = rid d"
    by (simp add: resourceDataCatalogSchemaDelete_def split: prod.splits option.splits)
  obtain m d1 w1 where e: "resourceDataCatalogSchemaRead drv d w = (m, d1, w1)"
    by (cases "resourceDataCatalogSchemaRead drv d w")
  with r have d1: "rid d1 = rid d" by simp
  have i1: "rid (fst (snd (resourceDataCatalogSchemaImport drv d w))) = rid d"
    using d1 by (cases m) (simp_all add: resourceDataCatalogSchemaImport_def e)
  have i2: "map rid (snd (fst (resourceDataCatalogSchemaImport drv d w)))
       = (if fst (fst (resourceDataCatalogSchemaImport drv d w)) = Done then [rid d] else [])"
    using d1 by (cases m) (simp_all add: resourceDataCatalogSchemaImport_def e)
  from r update_rid dl i1 i2 create_rid_final create_done_rid show ?thesis
    by (intro conjI impI)
qed

text \<open>
  The run of it: the Create of the scenario of the specification on an empty warehouse
  is given the oid 16385, and a rename on the small warehouse keeps the identifier.
\<close>

theorem identifier_stable_witness:
  "fst (resourceDataCatalogSchemaCreate warehouse d_new (start wh_empty)) = Done
   \<and> rid (fst (snd (resourceDataCatalogSchemaCreate warehouse d_new (start wh_empty)))) = ''16385''
   \<and> drv_query_string warehouse oidQuery (schema_name d_new)
        (db (snd (snd (resourceDataCatalogSchemaCreate warehouse d_new (start wh_empty)))))
      = Inr (rid (fst (snd (resourceDataCatalogSchemaCreate warehouse d_new (start wh_empty)))))
   \<and> rid (fst (snd (resourceDataCatalogSchemaUpdate warehouse
        (d_ext1\<lparr>schema_name := ''ext2''\<rparr>) (start wh0)))) = rid (d_ext1\<lparr>schema_name := ''ext2''\<rparr>)"
proof -
  have h: "fst (resourceDataCatalogSchemaCreate warehouse d_new (start wh_empty)) = Done"
    by code_simp
  have v: "rid (fst (snd (resourceDataCatalogSchemaCreate warehouse d_new (start wh_empty)))) = ''16385''"
    by code_simp
  from identifier_stable [of warehouse d_new "start wh_empty"] h
  have c: "drv_query_string warehouse oidQuery (schema_name d_new)
        (db (snd (snd (resourceDataCatalogSchemaCreate warehouse d_new (start wh_empty)))))
      = Inr (rid (fst (snd (resourceDataCatalogSchemaCreate warehouse d_new (start wh_empty)))))"
    by blast
  from identifier_stable [of warehouse "d_ext1\<lparr>schema_name := ''ext2''\<rparr>" "start wh0"]
  have u: "rid (fst (snd (resourceDataCatalogSchemaUpdate warehouse
        (d_ext1\<lparr>schema_name := ''ext2''\<rparr>) (start wh0)))) = rid (d_ext1\<lparr>schema_name := ''ext2''\<rparr>)"
    by blast
  from h v c u show ?thesis by (intro conjI)
qed

text \<open>
  Once the creation statement has succeeded, a Create whose owner update returns an
  error returns that error, and a Create whose oid lookup fails returns the wrapped lookup
  error; in both cases the resource data is returned as it was given.
\<close>

lemma create_late_failure_assigns_no_id:
  assumes "drv_exec drv Pool (createStatement d) (db w) = (None, s1)"
  shows "(snd (getok_owner d)
           \<and> updateDataCatalogSchemaOwner drv d Pool
               (Sleep drv 5 \<lparr>db = s1, trace = trace w @ [EvExec Pool (createStatement d)]\<rparr>)
             = (Failed err, w2)
          \<longrightarrow> resourceDataCatalogSchemaCreate drv d w = (Failed err, d, w2))
       \<and> ((if snd (getok_owner d)
            then updateDataCatalogSchemaOwner drv d Pool
               (Sleep drv 5 \<lparr>db = s1, trace = trace w @ [EvExec Pool (createStatement d)]\<rparr>)
            else (Done, Sleep drv 5 \<lparr>db = s1, trace = trace w @ [EvExec Pool (createStatement d)]\<rparr>))
             = (Done, w3)
           \<and> drv_query_string drv oidQuery (schema_name d) (db w3) = Inl err'
          \<longrightarrow> resourceDataCatalogSchemaCreate drv d w =
                (Failed (Wrapped (oid_error_format (schema_name d)) err'), d,
                 w3\<lparr>trace := trace w3 @ [EvQueryRow oidQuery (schema_name d)]\<rparr>))"
proof (intro conjI impI)
  assume "snd (getok_owner d)
           \<and> updateDataCatalogSchemaOwner drv d Pool
               (Sleep drv 5 \<lparr>db = s1, trace = trace w @ [EvExec Pool (createStatement d)]\<rparr>)
             = (Failed err, w2)"
  then show "resourceDataCatalogSchemaCreate drv d w = (Failed err, d, w2)"
    by (intro create_owner_fail [OF assms]) simp
next
  assume "(if snd (getok_owner d)
            then updateDataCatalogSchemaOwner drv d Pool
               (Sleep drv 5 \<lparr>db = s1, trace = trace w @ [EvExec Pool (createStatement d)]\<rparr>)
            else (Done, Sleep drv 5 \<lparr>db = s1, trace = trace w @ [EvExec Pool (createStatement d)]\<rparr>))
             = (Done, w3)
           \<and> drv_query_string drv oidQuery (schema_name d) (db w3) = Inl err'"
  then show "resourceDataCatalogSchemaCreate drv d w =
                (Failed (Wrapped (oid_error_format (schema_name d)) err'), d,
                 w3\<lparr>trace := trace w3 @ [EvQueryRow oidQuery (schema_name d)]\<rparr>)"
    by (intro create_oid_fail [OF assms]) simp_all
qed

text \<open>
  The runs of it: a warehouse that refuses the owner change, and one in which the new
  schema is not yet visible to the lookup.
\<close>

lemma create_late_failure_assigns_no_id_runs:
  "resourceDataCatalogSchemaCreate
       (scripted refuse_alter (Inr ''16385'') (Inl ErrNoRows) [''alice''])
       (d_new\<lparr>owner := Some 200\<rparr>) (start ()) =
     (Failed (Wrapped ''Error updating external schema ext1 owner to alice: {{err}}''
        (DriverError ''permission denied'')),
      d_new\<lparr>owner := Some 200\<rparr>,
      \<lparr>db = (),
       trace = [EvExec Pool (createStatement (d_new\<lparr>owner := Some 200\<rparr>)), EvSleep 5,
                EvUsernames Pool [200], EvExec Pool ''ALTER SCHEMA ext1 OWNER TO alice'']\<rparr>)
   \<and> resourceDataCatalogSchemaCreate
       (scripted accept_all (Inl ErrNoRows) (Inl ErrNoRows) []) d_new (start ()) =
     (Failed (Wrapped ''Error reading oid for created external schema ext1: {{err}}'' ErrNoRows),
      d_new,
      \<lparr>db = (),
       trace = [EvExec Pool (createStatement d_new), EvSleep 5, EvQueryRow oidQuery ''ext1'']\<rparr>)"
proof -
  let ?A = "scripted refuse_alter (Inr ''16385'') (Inl ErrNoRows) [''alice'']"
  let ?B = "scripted accept_all (Inl ErrNoRows) (Inl ErrNoRows) []"
  let ?dA = "d_new\<lparr>owner := Some 200\<rparr>"
  let ?eA = "Wrapped ''Error updating external schema ext1 owner to alice: {{err}}''
        (DriverError ''permission denied'')"
  let ?wA = "\<lparr>db = (),
       trace = [EvExec Pool (createStatement ?dA), EvSleep 5,
                EvUsernames Pool [200], EvExec Pool ''ALTER SCHEMA ext1 OWNER TO alice'']\<rparr>"
  let ?wB = "\<lparr>db = (), trace = [EvExec Pool (createStatement d_new), EvSleep 5]\<rparr>"
  have a1: "drv_exec ?A Pool (createStatement ?dA) (db (start ())) = (None, ())"
    by code_simp
  have a2: "snd (getok_owner ?dA)
      \<and> updateDataCatalogSchemaOwner ?A ?dA Pool
          (Sleep ?A 5 \<lparr>db = (), trace = trace (start ()) @ [EvExec Pool (createStatement ?dA)]\<rparr>)
        = (Failed ?eA, ?wA)"
    by code_simp
  have b1: "drv_exec ?B Pool (createStatement d_new) (db (start ())) = (None, ())"
    by code_simp
  have b2: "(if snd (getok_owner d_new)
            then updateDataCatalogSchemaOwner ?B d_new Pool
               (Sleep ?B 5 \<lparr>db = (), trace = trace (start ()) @ [EvExec Pool (createStatement d_new)]\<rparr>)
            else (Done, Sleep ?B 5 \<lparr>db = (), trace = trace (start ()) @ [EvExec Pool (createStatement d_new)]\<rparr>))
             = (Done, ?wB)
           \<and> drv_query_string ?B oidQuery (schema_name d_new) (db ?wB) = Inl ErrNoRows"
    by code_simp
  have b3: "(Failed (Wrapped (oid_error_format (schema_name d_new)) ErrNoRows), d_new,
                 ?wB\<lparr>trace := trace ?wB @ [EvQueryRow oidQuery (schema_name d_new)]\<rparr>)
      = (Failed (Wrapped ''Error reading oid for created external schema ext1: {{err}}'' ErrNoRows),
      d_new,
      \<lparr>db = (),
       trace = [EvExec Pool (createStatement d_new), EvSleep 5, EvQueryRow oidQuery ''ext1'']\<rparr>)"
    by code_simp
  from create_late_failure_assigns_no_id [OF a1, of ?eA ?wA] a2
  have cA: "resourceDataCatalogSchemaCreate ?A ?dA (start ()) = (Failed ?eA, ?dA, ?wA)"
    by blast
  from create_late_failure_assigns_no_id [OF b1, of _ _ ?wB ErrNoRows] b2
  have "resourceDataCatalogSchemaCreate ?B d_new (start ()) =
      (Failed (Wrapped (oid_error_format (schema_name d_new)) ErrNoRows), d_new,
                 ?wB\<lparr>trace := trace ?wB @ [EvQueryRow oidQuery (schema_name d_new)]\<rparr>)"
    by blast
  then have cB: "resourceDataCatalogSchemaCreate ?B d_new (start ()) =
      (Failed (Wrapped ''Error reading oid for created external schema ext1: {{err}}'' ErrNoRows),
      d_new,
      \<lparr>db = (),
       trace = [EvExec Pool (createStatement d_new), EvSleep 5, EvQueryRow oidQuery ''ext1'']\<rparr>)"
    by (simp only: b3)
  from cA cB show ?thesis by (intro conjI)
qed

text \<open>
  Claim C10 fails on the code. When the owner given has no name (user 300, whom the
  warehouse does not know), the owner update fails after the schema has been created: it
  panics on the index into the empty list. Create returns no error then; it crashes, with
  the schema in the catalog and no identifier assigned.
\<close>

theorem create_panics_after_schema_created:
  "resourceDataCatalogSchemaCreate warehouse (d_new\<lparr>owner := Some 300\<rparr>) (start wh_empty) =
     (Panicked IndexOutOfRange, d_new\<lparr>owner := Some 300\<rparr>,
      \<lparr>db = wh_empty\<lparr>committed :=
              \<lparr>schemas = [(''16385'', ''ext1'', 100, ''gluedb'', ''arn:aws:iam::123:role/r'')],
               oids = [''16386'']\<rparr>\<rparr>,
       trace = [EvExec Pool (createStatement (d_new\<lparr>owner := Some 300\<rparr>)), EvSleep 5,
                EvUsernames Pool [300]]\<rparr>)"
  by code_simp

end
